theory Spec2Isabelle
  imports Main "HOL-Library.Char_ord" "HOL-Library.List_Lexorder"
begin

section \<open>Python values used by library\_cli.py\<close>

text \<open>
  The user's answers to \<open>input(...)\<close> are strings. A \<open>string\<close> here is a list of
  characters with code points 0 to 255, and the helpers below are Python's \<open>str.strip\<close>,
  \<open>str.lower\<close>, \<open>int\<close> and \<open>str\<close> on such text. \<open>str.strip\<close> removes the characters for
  which \<open>str.isspace\<close> holds: below 256 these are the ASCII blanks, the four separators
  0x1C to 0x1F, NEL (0x85) and the no-break space (0xA0).
\<close>

definition whitespace :: "char list" where
  "whitespace = [CHR 0x09, CHR 0x0A, CHR 0x0B, CHR 0x0C, CHR 0x0D,
                 CHR 0x1C, CHR 0x1D, CHR 0x1E, CHR 0x1F, CHR 0x20, CHR 0x85, CHR 0xA0]"

definition is_space :: "char \<Rightarrow> bool" where
  "is_space c = (c \<in> set whitespace)"

definition py_strip :: "string \<Rightarrow> string" where
  "py_strip s = rev (dropWhile is_space (rev (dropWhile is_space s)))"

text \<open>
  \<open>str.lower\<close>: below 256 the capitals are A to Z and 0xC0 to 0xDE without the
  multiplication sign 0xD7; each has its small letter 32 places further on.
\<close>

definition capitals :: "char list" where
  "capitals = ''ABCDEFGHIJKLMNOPQRSTUVWXYZ'' @
     [CHR 0xC0, CHR 0xC1, CHR 0xC2, CHR 0xC3, CHR 0xC4, CHR 0xC5, CHR 0xC6, CHR 0xC7,
      CHR 0xC8, CHR 0xC9, CHR 0xCA, CHR 0xCB, CHR 0xCC, CHR 0xCD, CHR 0xCE, CHR 0xCF,
      CHR 0xD0, CHR 0xD1, CHR 0xD2, CHR 0xD3, CHR 0xD4, CHR 0xD5, CHR 0xD6,
      CHR 0xD8, CHR 0xD9, CHR 0xDA, CHR 0xDB, CHR 0xDC, CHR 0xDD, CHR 0xDE]"

definition small_letters :: "char list" where
  "small_letters = ''abcdefghijklmnopqrstuvwxyz'' @
     [CHR 0xE0, CHR 0xE1, CHR 0xE2, CHR 0xE3, CHR 0xE4, CHR 0xE5, CHR 0xE6, CHR 0xE7,
      CHR 0xE8, CHR 0xE9, CHR 0xEA, CHR 0xEB, CHR 0xEC, CHR 0xED, CHR 0xEE, CHR 0xEF,
      CHR 0xF0, CHR 0xF1, CHR 0xF2, CHR 0xF3, CHR 0xF4, CHR 0xF5, CHR 0xF6,
      CHR 0xF8, CHR 0xF9, CHR 0xFA, CHR 0xFB, CHR 0xFC, CHR 0xFD, CHR 0xFE]"

definition lower_char :: "char \<Rightarrow> char" where
  "lower_char c = (case map_of (zip capitals small_letters) c of None \<Rightarrow> c | Some d \<Rightarrow> d)"

definition py_lower :: "string \<Rightarrow> string" where
  "py_lower s = map lower_char s"

definition digit_val :: "char \<Rightarrow> nat option" where
  "digit_val c = map_of (zip ''0123456789'' [0, 1, 2, 3, 4, 5, 6, 7, 8, 9]) c"

text \<open>
  \<open>int(s)\<close> in base ten: blanks around the text are dropped, one sign is allowed, then
  decimal digits, where a single underscore may stand between two digits. Anything else
  raises ValueError (\<open>None\<close>). The blanks that \<open>int\<close> drops are fewer than those of
  \<open>str.strip\<close>: the six ASCII blanks of C's \<open>isspace\<close>, and the blanks beyond ASCII (0x85 and
  0xA0), which \<open>int\<close> first turns into spaces; the separators 0x1C to 0x1F are not among
  them. Below 256 the only decimal digits are 0 to 9. \<open>parse_digits acc cs\<close> reads what
  follows a digit.
\<close>

definition int_whitespace :: "char list" where
  "int_whitespace = [CHR 0x09, CHR 0x0A, CHR 0x0B, CHR 0x0C, CHR 0x0D, CHR 0x20,
                     CHR 0x85, CHR 0xA0]"

definition int_space :: "char \<Rightarrow> bool" where
  "int_space c = (c \<in> set int_whitespace)"

definition int_strip :: "string \<Rightarrow> string" where
  "int_strip s = rev (dropWhile int_space (rev (dropWhile int_space s)))"

fun parse_digits :: "nat \<Rightarrow> string \<Rightarrow> nat option" where
  "parse_digits acc [] = Some acc"
| "parse_digits acc [c] =
     (case digit_val c of None \<Rightarrow> None | Some v \<Rightarrow> Some (10 * acc + v))"
| "parse_digits acc (c # d # ds) =
     (if c = CHR ''_''
      then (case digit_val d of None \<Rightarrow> None | Some v \<Rightarrow> parse_digits (10 * acc + v) ds)
      else (case digit_val c of None \<Rightarrow> None | Some v \<Rightarrow> parse_digits (10 * acc + v) (d # ds)))"

definition parse_unsigned :: "string \<Rightarrow> nat option" where
  "parse_unsigned s =
     (case s of
        [] \<Rightarrow> None
      | c # cs \<Rightarrow>
         (case digit_val c of
            None \<Rightarrow> None
          | Some v \<Rightarrow>
              \<comment> \<open>CPython refuses a text of more than 4300 digits (its default
                  \<open>int_max_str_digits\<close>) with ValueError\<close>
              if length (filter (\<lambda>x. x \<noteq> CHR ''_'') s) > 4300 then None
              else parse_digits v cs))"

definition py_int :: "string \<Rightarrow> int option" where
  "py_int s =
     (case int_strip s of
        [] \<Rightarrow> None
      | c # cs \<Rightarrow>
          if c = CHR ''-'' then map_option (\<lambda>n. - int n) (parse_unsigned cs)
          else if c = CHR ''+'' then map_option int (parse_unsigned cs)
          else map_option int (parse_unsigned (c # cs)))"

definition digit_char :: "nat \<Rightarrow> char" where
  "digit_char n = ''0123456789'' ! (n mod 10)"

function str_nat :: "nat \<Rightarrow> string" where
  "str_nat n = (if n < 10 then [digit_char n] else str_nat (n div 10) @ [digit_char n])"
  by pat_completeness auto
termination
  by (relation "measure id") auto

declare str_nat.simps [simp del]

definition py_str :: "int \<Rightarrow> string" where
  "py_str i = (if i < 0 then CHR ''-'' # str_nat (nat (- i)) else str_nat (nat i))"

text \<open>\<open>f"{x:<n}"\<close>: the text padded with blanks on the right up to width \<open>n\<close>.\<close>

definition ljust :: "nat \<Rightarrow> string \<Rightarrow> string" where
  "ljust n s = s @ replicate (n - length s) CHR '' ''"

text \<open>
  \<open>date.today()\<close> is an input of every operation that reads the clock. \<open>isoformat\<close> is
  \<open>YYYY-MM-DD\<close>, each number padded with zeros.
\<close>

datatype date = Date (year: nat) (month: nat) (day: nat)

definition zfill :: "nat \<Rightarrow> string \<Rightarrow> string" where
  "zfill n s = replicate (n - length s) CHR ''0'' @ s"

definition isoformat :: "date \<Rightarrow> string" where
  "isoformat d =
     zfill 4 (str_nat (year d)) @ ''-'' @ zfill 2 (str_nat (month d)) @ ''-''
       @ zfill 2 (str_nat (day d))"

section \<open>The store\<close>

text \<open>
  The three tables of \<open>libraryDB.sqlite\<close>, each a list of rows in rowid order. The columns
  are those the statements of library\_cli.py read and write.
\<close>

record author =
  AuthorID :: int
  AuthorName :: string
  BirthYear :: "int option"

record book =
  BookID :: int
  Title :: string
  PublicationYear :: "int option"
  Books_AuthorID :: "int option"

record borrow =
  BorrowID :: int
  Borrows_BookID :: int
  BorrowerName :: string
  DateBorrowed :: string
  ReturnDate :: "string option"

record db =
  Authors :: "author list"
  Books :: "book list"
  Borrows :: "borrow list"

text \<open>
  The database file is not part of the repository: the program opens an existing file and
  checks only that the three tables are there. What the file declares for the two foreign
  keys is therefore a parameter. \<open>create_connection\<close> turns enforcement on
  (\<open>PRAGMA foreign_keys = ON\<close>), so a declared key is enforced at once: \<open>NoAction\<close> (SQLite's
  default, and \<open>RESTRICT\<close>) rejects a delete that would leave a referencing row, \<open>Cascade\<close>
  deletes the referencing rows, \<open>SetNull\<close> nulls the referencing column. \<open>Undeclared\<close> is a
  column without a \<open>REFERENCES\<close> clause. \<open>random_rowid\<close> is the id SQLite's random search
  comes up with for a table that has used up its largest id (see \<open>new_rowid\<close> below).
\<close>

datatype fk_action = Undeclared | NoAction | Cascade | SetNull

record env =
  today :: date
  books_author_fk :: fk_action
  borrows_book_fk :: fk_action
  random_rowid :: "int list \<Rightarrow> int option"

datatype error =
    ValidationError      \<comment> \<open>an empty name or title, a year out of range\<close>
  | InvalidInput         \<comment> \<open>\<open>except ValueError\<close>: the text is not a number\<close>
  | NotFoundError        \<comment> \<open>no book, author or outstanding borrow with that id\<close>
  | ReferenceError       \<comment> \<open>add\_book: "Author ID not found", and its
                             \<open>except sqlite3.IntegrityError\<close> branch\<close>
  | ConflictError string \<comment> \<open>"this book is currently borrowed by ..."\<close>
  | VerificationError    \<comment> \<open>the read-back after the commit failed\<close>
  | Canceled             \<comment> \<open>"Delete canceled."\<close>
  | DatabaseError        \<comment> \<open>\<open>except sqlite3.Error\<close>\<close>
  | OverflowError        \<comment> \<open>raised by the binding of an integer outside 64 bits;
                             no handler of the operation catches it\<close>

definition fetchone :: "'a list \<Rightarrow> 'a option" where
  "fetchone rows = (case rows of [] \<Rightarrow> None | r # _ \<Rightarrow> Some r)"

text \<open>A Python integer is bound to a statement only if it fits SQLite's 64-bit INTEGER.\<close>

definition sqlite_int :: "int \<Rightarrow> bool" where
  "sqlite_int i = (- (2 ^ 63) \<le> i \<and> i < 2 ^ 63)"

text \<open>
  Modelled from the spec: the table declarations are missing from the repository; the spec
  says every identifier is a store-generated unique id. \<open>lastrowid\<close> follows SQLite's rule
  for an integer primary key: one more than the largest id in the table, 1 for an empty
  table.
\<close>

definition lastrowid :: "int list \<Rightarrow> int" where
  "lastrowid ids = (case ids of [] \<Rightarrow> 1 | i # rest \<Rightarrow> fold max rest i + 1)"

text \<open>
  The id an INSERT gives the new row. When the largest id of the table is already
  \<open>2 ^ 63 - 1\<close>, SQLite tries positive ids at random and takes one that is not in use;
  when it finds none the statement fails with SQLITE\_FULL, an \<open>sqlite3.Error\<close> (\<open>None\<close>).
\<close>

definition new_rowid :: "env \<Rightarrow> int list \<Rightarrow> int option" where
  "new_rowid e ids =
     (if lastrowid ids < 2 ^ 63 then Some (lastrowid ids)
      else (case random_rowid e ids of
              None \<Rightarrow> None
            | Some r \<Rightarrow> if 0 < r \<and> r < 2 ^ 63 \<and> r \<notin> set ids then Some r else None))"

section \<open>Author operations\<close>

text \<open>
  Every operation takes the clock and the declared foreign keys (\<open>env\<close>), the store, and
  the user's answers to its prompts in the order the prompts are made; it returns what it
  reports and the store it leaves behind. An answer to a prompt that a path never makes
  is not read on that path. \<open>Inl\<close> is a failure (the function prints a message and
  returns False, or raises), \<open>Inr\<close> a success (it returns True).
\<close>

text \<open>\<open>INSERT INTO Authors\<close>, the commit, and the read-back of the new row.\<close>

definition insert_author ::
    "env \<Rightarrow> db \<Rightarrow> string \<Rightarrow> int option \<Rightarrow> (error + int) \<times> db" where
  "insert_author e db name birth_year =
     (case new_rowid e (map AuthorID (Authors db)) of
        None \<Rightarrow> (Inl DatabaseError, db)
      | Some author_id \<Rightarrow>
          (let db' = db\<lparr>Authors := Authors db @
                      [\<lparr>AuthorID = author_id, AuthorName = name, BirthYear = birth_year\<rparr>]\<rparr>
           in if fetchone (filter (\<lambda>a. AuthorID a = author_id) (Authors db')) \<noteq> None
              then (Inr author_id, db')
              else (Inl VerificationError, db')))"

definition add_author :: "env \<Rightarrow> db \<Rightarrow> string \<Rightarrow> string \<Rightarrow> (error + int) \<times> db" where
  "add_author e db name_in birth_year_in =
     (let name = py_strip name_in; birth_year = py_strip birth_year_in
      in if name = [] then (Inl ValidationError, db)
         else if birth_year \<noteq> [] then
           (case py_int birth_year of
              None \<Rightarrow> (Inl InvalidInput, db)
            | Some y \<Rightarrow>
                if y < 0 \<or> y > int (year (today e)) then (Inl ValidationError, db)
                else insert_author e db name (Some y))
         else insert_author e db name None)"

text \<open>\<open>SELECT * FROM Authors ORDER BY AuthorName\<close>; rows with equal names keep table order.\<close>

definition select_authors :: "db \<Rightarrow> author list" where
  "select_authors db = sort_key AuthorName (Authors db)"

text \<open>\<open>str(y) if y else "Unknown"\<close>: the branch tests the truth value of the column.\<close>

definition render_year :: "int option \<Rightarrow> string" where
  "render_year y =
     (case y of None \<Rightarrow> ''Unknown'' | Some v \<Rightarrow> if v \<noteq> 0 then py_str v else ''Unknown'')"

text \<open>\<open>s[:n - 3] + "..." if len(s) > n else s\<close>\<close>

definition shorten :: "nat \<Rightarrow> string \<Rightarrow> string" where
  "shorten n s = (if length s > n then take (n - 3) s @ ''...'' else s)"

definition author_fields :: "author \<Rightarrow> int \<times> string \<times> string" where
  "author_fields a = (AuthorID a, shorten 30 (AuthorName a), render_year (BirthYear a))"

definition author_line :: "author \<Rightarrow> string" where
  "author_line a =
     (case author_fields a of
        (i, name, birth_year) \<Rightarrow>
          ljust 4 (py_str i) @ '' '' @ ljust 30 name @ '' '' @ ljust 10 birth_year)"

text \<open>The lines \<open>view_authors\<close> prints, one per \<open>print\<close> call.\<close>

definition view_authors :: "db \<Rightarrow> string list" where
  "view_authors db =
     (let all_authors = select_authors db
      in [CHR 0x0A # ''--- All Authors ---''] @
         (if all_authors \<noteq> [] then
            [ljust 4 ''ID'' @ '' '' @ ljust 30 ''Name'' @ '' '' @ ljust 10 ''Birth Year'',
             replicate 45 CHR ''-''] @
            map author_line all_authors @
            [CHR 0x0A # ''Total authors: '' @ py_str (int (length all_authors))]
          else [''No authors found.'']))"

text \<open>\<open>UPDATE Authors SET AuthorName = ?, BirthYear = ? WHERE AuthorID = ?\<close>, the commit and
  the read-back, which compares the name only.\<close>

definition write_author :: "db \<Rightarrow> int \<Rightarrow> string \<Rightarrow> int option \<Rightarrow> (error + unit) \<times> db" where
  "write_author db author_id new_name new_birth_year =
     (let db' = db\<lparr>Authors :=
                  map (\<lambda>a. if AuthorID a = author_id
                            then a\<lparr>AuthorName := new_name, BirthYear := new_birth_year\<rparr>
                            else a) (Authors db)\<rparr>
      in case fetchone (filter (\<lambda>a. AuthorID a = author_id) (Authors db')) of
           None \<Rightarrow> (Inl VerificationError, db')
         | Some updated_author \<Rightarrow>
             if AuthorName updated_author = new_name then (Inr (), db')
             else (Inl VerificationError, db'))"

definition update_author ::
    "env \<Rightarrow> db \<Rightarrow> string \<Rightarrow> string \<Rightarrow> string \<Rightarrow> (error + unit) \<times> db" where
  "update_author e db author_id_in new_name_in new_birth_year_in =
     (case py_int author_id_in of
        None \<Rightarrow> (Inl InvalidInput, db)
      | Some author_id \<Rightarrow>
          if \<not> sqlite_int author_id then (Inl OverflowError, db)
          else
            (case fetchone (filter (\<lambda>a. AuthorID a = author_id) (Authors db)) of
               None \<Rightarrow> (Inl NotFoundError, db)
             | Some author \<Rightarrow>
                 (let new_name = (if py_strip new_name_in = [] then AuthorName author
                                  else py_strip new_name_in);
                      new_birth_year_input = py_strip new_birth_year_in
                  in if new_birth_year_input \<noteq> [] then
                       (case py_int new_birth_year_input of
                          None \<Rightarrow> (Inl InvalidInput, db)
                        | Some y \<Rightarrow>
                            if y < 0 \<or> y > int (year (today e))
                            then (Inl ValidationError, db)
                            else write_author db author_id new_name (Some y))
                     else write_author db author_id new_name (BirthYear author))))"

section \<open>Deleting rows under the declared foreign keys\<close>

text \<open>
  \<open>DELETE FROM Books WHERE ...\<close>. \<open>None\<close> is the statement failing with IntegrityError, the
  store unchanged. \<open>Borrows.BookID\<close> is declared NOT NULL, so a key declared
  \<open>ON DELETE SET NULL\<close> fails as soon as a row references a deleted book.
\<close>

definition sql_delete_books :: "fk_action \<Rightarrow> (book \<Rightarrow> bool) \<Rightarrow> db \<Rightarrow> db option" where
  "sql_delete_books fk P db =
     (let gone = map BookID (filter P (Books db));
          kept = filter (\<lambda>b. \<not> P b) (Books db);
          referencing = filter (\<lambda>r. Borrows_BookID r \<in> set gone) (Borrows db)
      in case fk of
           Undeclared \<Rightarrow> Some (db\<lparr>Books := kept\<rparr>)
         | NoAction \<Rightarrow> if referencing = [] then Some (db\<lparr>Books := kept\<rparr>) else None
         | Cascade \<Rightarrow>
             Some (db\<lparr>Books := kept,
                      Borrows := filter (\<lambda>r. Borrows_BookID r \<notin> set gone) (Borrows db)\<rparr>)
         | SetNull \<Rightarrow> if referencing = [] then Some (db\<lparr>Books := kept\<rparr>) else None)"

text \<open>
  \<open>DELETE FROM Authors WHERE AuthorID = ?\<close>. A cascade from Authors to Books deletes the
  author's books, and that delete in turn follows the key from Borrows to Books.
\<close>

definition sql_delete_author :: "env \<Rightarrow> int \<Rightarrow> db \<Rightarrow> db option" where
  "sql_delete_author e author_id db =
     (let kept = filter (\<lambda>a. AuthorID a \<noteq> author_id) (Authors db);
          referencing = filter (\<lambda>b. Books_AuthorID b = Some author_id) (Books db)
      in case books_author_fk e of
           Undeclared \<Rightarrow> Some (db\<lparr>Authors := kept\<rparr>)
         | NoAction \<Rightarrow> if referencing = [] then Some (db\<lparr>Authors := kept\<rparr>) else None
         | SetNull \<Rightarrow>
             Some (db\<lparr>Authors := kept,
                      Books := map (\<lambda>b. if Books_AuthorID b = Some author_id
                                         then b\<lparr>Books_AuthorID := None\<rparr> else b) (Books db)\<rparr>)
         | Cascade \<Rightarrow>
             (case sql_delete_books (borrows_book_fk e)
                     (\<lambda>b. Books_AuthorID b = Some author_id) db of
                None \<Rightarrow> None
              | Some db' \<Rightarrow> Some (db'\<lparr>Authors := kept\<rparr>)))"

text \<open>The count and the warning that \<open>delete_author\<close> puts into its confirmation prompt.\<close>

definition book_count :: "db \<Rightarrow> int \<Rightarrow> nat" where
  "book_count db author_id = length (filter (\<lambda>b. Books_AuthorID b = Some author_id) (Books db))"

definition delete_author_warning :: "db \<Rightarrow> int \<Rightarrow> string" where
  "delete_author_warning db author_id =
     (if book_count db author_id > 0
      then '' This will affect '' @ py_str (int (book_count db author_id)) @ '' book(s).''
      else [])"

text \<open>
  The prompt \<open>delete_author\<close> puts to the user before it reads the confirmation:
  \<open>Are you sure you want to delete '{author[0]}'?{warning} (yes/no): \<close>. \<open>None\<close> when the
  function returns before it asks.
\<close>

definition delete_author_prompt :: "db \<Rightarrow> string \<Rightarrow> string option" where
  "delete_author_prompt db author_id_in =
     (case py_int author_id_in of
        None \<Rightarrow> None
      | Some author_id \<Rightarrow>
          if \<not> sqlite_int author_id then None
          else
            (case fetchone (filter (\<lambda>a. AuthorID a = author_id) (Authors db)) of
               None \<Rightarrow> None
             | Some author \<Rightarrow>
                 Some (''Are you sure you want to delete '' @ [CHR 0x27] @ AuthorName author
                       @ [CHR 0x27] @ ''?'' @ delete_author_warning db author_id
                       @ '' (yes/no): '')))"

text \<open>The read-back after \<open>DELETE FROM Authors\<close>: no row of Authors has the id.\<close>

definition delete_author_verify :: "db \<Rightarrow> int \<Rightarrow> bool" where
  "delete_author_verify db author_id =
     (fetchone (filter (\<lambda>a. AuthorID a = author_id) (Authors db)) = None)"

definition delete_author :: "env \<Rightarrow> db \<Rightarrow> string \<Rightarrow> string \<Rightarrow> (error + unit) \<times> db" where
  "delete_author e db author_id_in confirm_in =
     (case py_int author_id_in of
        None \<Rightarrow> (Inl InvalidInput, db)
      | Some author_id \<Rightarrow>
          if \<not> sqlite_int author_id then (Inl OverflowError, db)
          else
            (case fetchone (filter (\<lambda>a. AuthorID a = author_id) (Authors db)) of
               None \<Rightarrow> (Inl NotFoundError, db)
             | Some author \<Rightarrow>
                 if py_strip (py_lower confirm_in) = ''yes'' then
                   (case sql_delete_author e author_id db of
                      None \<Rightarrow> (Inl DatabaseError, db)
                    | Some db' \<Rightarrow>
                        if delete_author_verify db' author_id then (Inr (), db')
                        else (Inl VerificationError, db'))
                 else (Inl Canceled, db)))"

section \<open>Book operations\<close>

text \<open>
  \<open>INSERT INTO Books\<close>, the commit, and the read-back of the new row. The store rejects
  a row whose AuthorID names no author when the key from Books to Authors is declared
  (IntegrityError, which \<open>add_book\<close> reports with "Make sure the Author ID exists in the
  Authors table").
\<close>

definition insert_book :: "env \<Rightarrow> db \<Rightarrow> string \<Rightarrow> int option \<Rightarrow> int option \<Rightarrow> (error + int) \<times> db" where
  "insert_book e db title pub_year author_id =
     (if (case author_id of None \<Rightarrow> False | Some a \<Rightarrow> \<not> sqlite_int a)
      then (Inl OverflowError, db)
      else if books_author_fk e \<noteq> Undeclared \<and>
              (case author_id of
                 None \<Rightarrow> False
               | Some a \<Rightarrow> a \<notin> set (map AuthorID (Authors db)))
      then (Inl ReferenceError, db)
      else
        (case new_rowid e (map BookID (Books db)) of
           None \<Rightarrow> (Inl DatabaseError, db)
         | Some book_id \<Rightarrow>
             (let db' = db\<lparr>Books := Books db @
                         [\<lparr>BookID = book_id, Title = title, PublicationYear = pub_year,
                           Books_AuthorID = author_id\<rparr>]\<rparr>
              in if fetchone (filter (\<lambda>b. BookID b = book_id) (Books db')) \<noteq> None
                 then (Inr book_id, db')
                 else (Inl VerificationError, db'))))"

text \<open>
  The part of \<open>add_book\<close> after the publication year: the choice between an existing
  author (checked by the function), a new author (added by \<open>add_author\<close>; the id typed
  afterwards is not checked by the function), and no author.
\<close>

definition add_book_author ::
    "env \<Rightarrow> db \<Rightarrow> string \<Rightarrow> int option \<Rightarrow> string \<Rightarrow> string \<Rightarrow> string \<Rightarrow> string
       \<Rightarrow> (error + int) \<times> db" where
  "add_book_author e db title pub_year choice_in author_id_in name_in birth_year_in =
     (let choice = py_strip choice_in; author_id_input = py_strip author_id_in
      in if choice = ''1'' then
           (if author_id_input \<noteq> [] then
              (case py_int author_id_input of
                 None \<Rightarrow> (Inl InvalidInput, db)
               | Some author_id \<Rightarrow>
                   if \<not> sqlite_int author_id then (Inl OverflowError, db)
                   else if fetchone (filter (\<lambda>a. AuthorID a = author_id) (Authors db)) = None
                   then (Inl ReferenceError, db)
                   else insert_book e db title pub_year (Some author_id))
            else insert_book e db title pub_year None)
         else if choice = ''2'' then
           (case add_author e db name_in birth_year_in of
              (Inr new_id, db1) \<Rightarrow>
                (if author_id_input \<noteq> [] then
                   (case py_int author_id_input of
                      None \<Rightarrow> (Inl InvalidInput, db1)
                    | Some author_id \<Rightarrow> insert_book e db1 title pub_year (Some author_id))
                 else insert_book e db1 title pub_year None)
            | (Inl err, db1) \<Rightarrow> insert_book e db1 title pub_year None)
         else insert_book e db title pub_year None)"

definition add_book ::
    "env \<Rightarrow> db \<Rightarrow> string \<Rightarrow> string \<Rightarrow> string \<Rightarrow> string \<Rightarrow> string \<Rightarrow> string
       \<Rightarrow> (error + int) \<times> db" where
  "add_book e db title_in pub_year_in choice_in author_id_in name_in birth_year_in =
     (let title = py_strip title_in; pub_year = py_strip pub_year_in
      in if title = [] then (Inl ValidationError, db)
         else if pub_year \<noteq> [] then
           (case py_int pub_year of
              None \<Rightarrow> (Inl InvalidInput, db)
            | Some y \<Rightarrow>
                if y < 0 \<or> y > int (year (today e)) + 10 then (Inl ValidationError, db)
                else add_book_author e db title (Some y) choice_in author_id_in
                       name_in birth_year_in)
         else add_book_author e db title None choice_in author_id_in name_in birth_year_in)"

text \<open>
  \<open>SELECT ... FROM Books b LEFT JOIN Authors a ON b.AuthorID = a.AuthorID ORDER BY b.Title\<close>:
  every book with the name of each author row that matches, or with NULL when none does.
\<close>

definition select_books :: "db \<Rightarrow> (int \<times> string \<times> int option \<times> string option) list" where
  "select_books db =
     sort_key (\<lambda>row. fst (snd row))
       (concat (map (\<lambda>b.
          (case filter (\<lambda>a. Some (AuthorID a) = Books_AuthorID b) (Authors db) of
             [] \<Rightarrow> [(BookID b, Title b, PublicationYear b, None)]
           | matches \<Rightarrow>
               map (\<lambda>a. (BookID b, Title b, PublicationYear b, Some (AuthorName a))) matches))
          (Books db)))"

definition book_fields ::
    "int \<times> string \<times> int option \<times> string option \<Rightarrow> int \<times> string \<times> string \<times> string" where
  "book_fields row =
     (case row of
        (book_id, title, pub_year, author_name) \<Rightarrow>
          (book_id, shorten 30 title, render_year pub_year,
           (case author_name of
              None \<Rightarrow> ''Unknown Author''
            | Some n \<Rightarrow> if n \<noteq> [] then n else ''Unknown Author'')))"

definition book_line :: "int \<times> string \<times> int option \<times> string option \<Rightarrow> string" where
  "book_line row =
     (case book_fields row of
        (i, title, pub_year, author_name) \<Rightarrow>
          ljust 4 (py_str i) @ '' '' @ ljust 30 title @ '' '' @ ljust 6 pub_year @ '' ''
            @ ljust 20 author_name)"

definition view_all_books :: "db \<Rightarrow> string list" where
  "view_all_books db =
     (let all_books = select_books db
      in [CHR 0x0A # ''--- All Books in the Library ---''] @
         (if all_books \<noteq> [] then
            [ljust 4 ''ID'' @ '' '' @ ljust 30 ''Title'' @ '' '' @ ljust 6 ''Year'' @ '' ''
               @ ljust 20 ''Author'',
             replicate 65 CHR ''-''] @
            map book_line all_books @
            [CHR 0x0A # ''Total books: '' @ py_str (int (length all_books))]
          else [''No books found in the library.'']))"

definition update_book_title :: "env \<Rightarrow> db \<Rightarrow> string \<Rightarrow> string \<Rightarrow> (error + unit) \<times> db" where
  "update_book_title e db book_id_in new_title_in =
     (case py_int book_id_in of
        None \<Rightarrow> (Inl InvalidInput, db)
      | Some book_id \<Rightarrow>
          if \<not> sqlite_int book_id then (Inl OverflowError, db)
          else
            (case fetchone (filter (\<lambda>b. BookID b = book_id) (Books db)) of
               None \<Rightarrow> (Inl NotFoundError, db)
             | Some book \<Rightarrow>
                 (let new_title = py_strip new_title_in
                  in if new_title = [] then (Inl ValidationError, db)
                     else
                       (let db' = db\<lparr>Books :=
                                    map (\<lambda>b. if BookID b = book_id then b\<lparr>Title := new_title\<rparr>
                                              else b) (Books db)\<rparr>
                        in case fetchone (filter (\<lambda>b. BookID b = book_id) (Books db')) of
                             None \<Rightarrow> (Inl VerificationError, db')
                           | Some updated_book \<Rightarrow>
                               if Title updated_book = new_title then (Inr (), db')
                               else (Inl VerificationError, db')))))"

text \<open>The read-back after \<open>DELETE FROM Books\<close>: \<open>SELECT Title FROM Books WHERE BookID = ?\<close>
  finds no row.\<close>

definition delete_book_verify :: "db \<Rightarrow> int \<Rightarrow> bool" where
  "delete_book_verify db book_id =
     (fetchone (filter (\<lambda>b. BookID b = book_id) (Books db)) = None)"

definition delete_book :: "env \<Rightarrow> db \<Rightarrow> string \<Rightarrow> string \<Rightarrow> (error + unit) \<times> db" where
  "delete_book e db book_id_in confirm_in =
     (case py_int book_id_in of
        None \<Rightarrow> (Inl InvalidInput, db)
      | Some book_id \<Rightarrow>
          if \<not> sqlite_int book_id then (Inl OverflowError, db)
          else
            (case fetchone (filter (\<lambda>b. BookID b = book_id) (Books db)) of
               None \<Rightarrow> (Inl NotFoundError, db)
             | Some book \<Rightarrow>
                 if py_strip (py_lower confirm_in) = ''yes'' then
                   (case sql_delete_books (borrows_book_fk e) (\<lambda>b. BookID b = book_id) db of
                      None \<Rightarrow> (Inl DatabaseError, db)
                    | Some db' \<Rightarrow>
                        if delete_book_verify db' book_id then (Inr (), db')
                        else (Inl VerificationError, db'))
                 else (Inl Canceled, db)))"

section \<open>Borrowing operations\<close>

definition is_open :: "borrow \<Rightarrow> bool" where
  "is_open r = (ReturnDate r = None)"

text \<open>\<open>FROM Borrows br JOIN Books b ON br.BookID = b.BookID\<close> over the given borrow rows.\<close>

definition join_books :: "db \<Rightarrow> borrow list \<Rightarrow> (borrow \<times> book) list" where
  "join_books db rows =
     concat (map (\<lambda>br. map (\<lambda>b. (br, b))
                          (filter (\<lambda>b. BookID b = Borrows_BookID br) (Books db))) rows)"

definition borrow_book :: "env \<Rightarrow> db \<Rightarrow> string \<Rightarrow> string \<Rightarrow> (error + int) \<times> db" where
  "borrow_book e db book_id_in borrower_in =
     (case py_int book_id_in of
        None \<Rightarrow> (Inl InvalidInput, db)
      | Some book_id \<Rightarrow>
          (let borrower_name = py_strip borrower_in
           in if borrower_name = [] then (Inl ValidationError, db)
              else if \<not> sqlite_int book_id then (Inl OverflowError, db)
              else
                (case fetchone (filter (\<lambda>b. BookID b = book_id) (Books db)) of
                   None \<Rightarrow> (Inl NotFoundError, db)
                 | Some book \<Rightarrow>
                     (case fetchone (filter (\<lambda>r. Borrows_BookID r = book_id \<and> is_open r)
                                       (Borrows db)) of
                        Some current_borrower \<Rightarrow>
                          (Inl (ConflictError (BorrowerName current_borrower)), db)
                      | None \<Rightarrow>
                          (case new_rowid e (map BorrowID (Borrows db)) of
                             None \<Rightarrow> (Inl DatabaseError, db)
                           | Some borrow_id \<Rightarrow>
                               (let db' = db\<lparr>Borrows := Borrows db @
                                           [\<lparr>BorrowID = borrow_id, Borrows_BookID = book_id,
                                             BorrowerName = borrower_name,
                                             DateBorrowed = isoformat (today e),
                                             ReturnDate = None\<rparr>]\<rparr>
                                in if fetchone (filter (\<lambda>r. BorrowID r = borrow_id)
                                                  (Borrows db')) \<noteq> None
                                   then (Inr borrow_id, db')
                                   else (Inl VerificationError, db')))))))"

text \<open>The read-back of \<open>return_book\<close>: the row is there and its ReturnDate is a non-empty
  text (\<open>updated_record and updated_record[0]\<close>).\<close>

definition return_book_verify :: "db \<Rightarrow> int \<Rightarrow> bool" where
  "return_book_verify db borrow_id =
     (case fetchone (filter (\<lambda>r. BorrowID r = borrow_id) (Borrows db)) of
        None \<Rightarrow> False
      | Some updated_record \<Rightarrow>
          (case ReturnDate updated_record of None \<Rightarrow> False | Some d \<Rightarrow> d \<noteq> []))"

definition return_book :: "env \<Rightarrow> db \<Rightarrow> string \<Rightarrow> (error + unit) \<times> db" where
  "return_book e db borrow_id_in =
     (case py_int borrow_id_in of
        None \<Rightarrow> (Inl InvalidInput, db)
      | Some borrow_id \<Rightarrow>
          if \<not> sqlite_int borrow_id then (Inl OverflowError, db)
          else
            (case fetchone (join_books db
                    (filter (\<lambda>r. BorrowID r = borrow_id \<and> is_open r) (Borrows db))) of
               None \<Rightarrow> (Inl NotFoundError, db)
             | Some borrow_info \<Rightarrow>
                 (let db' = db\<lparr>Borrows :=
                              map (\<lambda>r. if BorrowID r = borrow_id
                                        then r\<lparr>ReturnDate := Some (isoformat (today e))\<rparr>
                                        else r) (Borrows db)\<rparr>
                  in if return_book_verify db' borrow_id then (Inr (), db')
                     else (Inl VerificationError, db'))))"

text \<open>
  The rows of \<open>view_borrowed_books\<close>, newest first (\<open>ORDER BY br.DateBorrowed DESC\<close>), each
  with the book row the join found for it; the statement selects BorrowID, Title,
  BorrowerName, DateBorrowed and ReturnDate from the pair. Rows of the same date come in
  the order of the join, as SQLite's sorter leaves them: the stable ascending sort is
  applied to the reversed list and its result reversed.
\<close>

definition borrowed_rows :: "bool \<Rightarrow> db \<Rightarrow> (borrow \<times> book) list" where
  "borrowed_rows only_outstanding db =
     rev (sort_key (\<lambda>row. DateBorrowed (fst row))
            (rev (join_books db
                    (if only_outstanding then filter is_open (Borrows db) else Borrows db))))"

definition select_borrowed ::
    "bool \<Rightarrow> db \<Rightarrow> (int \<times> string \<times> string \<times> string \<times> string option) list" where
  "select_borrowed only_outstanding db =
     map (\<lambda>row. (BorrowID (fst row), Title (snd row), BorrowerName (fst row),
                  DateBorrowed (fst row), ReturnDate (fst row)))
       (borrowed_rows only_outstanding db)"

definition borrow_line :: "int \<times> string \<times> string \<times> string \<times> string option \<Rightarrow> string" where
  "borrow_line row =
     (case row of
        (borrow_id, title, borrower, borrowed, returned) \<Rightarrow>
          ljust 4 (py_str borrow_id) @ '' '' @ ljust 25 (shorten 25 title) @ '' ''
            @ ljust 20 (shorten 20 borrower) @ '' '' @ ljust 12 borrowed @ '' ''
            @ ljust 12 (case returned of
                          None \<Rightarrow> ''Not Returned''
                        | Some d \<Rightarrow> if d \<noteq> [] then d else ''Not Returned''))"

definition view_borrowed_books :: "bool \<Rightarrow> db \<Rightarrow> string list" where
  "view_borrowed_books only_outstanding db =
     (let all_borrows = select_borrowed only_outstanding db
      in [if only_outstanding then CHR 0x0A # ''--- Currently Borrowed Books ---''
          else CHR 0x0A # ''--- All Borrow History ---''] @
         (if all_borrows \<noteq> [] then
            [ljust 4 ''ID'' @ '' '' @ ljust 25 ''Title'' @ '' '' @ ljust 20 ''Borrower'' @ '' ''
               @ ljust 12 ''Borrowed'' @ '' '' @ ljust 12 ''Returned'',
             replicate 75 CHR ''-''] @
            map borrow_line all_borrows @
            [CHR 0x0A # ''Total records: '' @ py_str (int (length all_borrows))]
          else if only_outstanding then [''No books are currently borrowed.'']
          else [''No borrow records found.'']))"

section \<open>The menu's mutating choices\<close>

text \<open>
  One constructor for each choice of \<open>main_menu\<close> that writes to the store, with the
  answers the chosen function asks for.
\<close>

datatype command =
    AddBook string string string string string string
  | UpdateBookTitle string string
  | DeleteBook string string
  | AddAuthor string string
  | UpdateAuthor string string string
  | DeleteAuthor string string
  | BorrowBook string string
  | ReturnBook string

fun exec :: "env \<Rightarrow> command \<Rightarrow> db \<Rightarrow> db" where
  "exec e (AddBook t y c a n b) db = snd (add_book e db t y c a n b)"
| "exec e (UpdateBookTitle i t) db = snd (update_book_title e db i t)"
| "exec e (DeleteBook i c) db = snd (delete_book e db i c)"
| "exec e (AddAuthor n b) db = snd (add_author e db n b)"
| "exec e (UpdateAuthor i n b) db = snd (update_author e db i n b)"
| "exec e (DeleteAuthor i c) db = snd (delete_author e db i c)"
| "exec e (BorrowBook i n) db = snd (borrow_book e db i n)"
| "exec e (ReturnBook i) db = snd (return_book e db i)"

section \<open>A small library\<close>

text \<open>
  One author, her book, and one borrow of it that is still outstanding; the clock and the
  declared foreign keys are given to \<open>env_of\<close>.
\<close>

definition env_of :: "fk_action \<Rightarrow> fk_action \<Rightarrow> env" where
  "env_of author_fk book_fk =
     \<lparr>today = Date 2026 11 4, books_author_fk = author_fk, borrows_book_fk = book_fk,
      random_rowid = (\<lambda>ids. None)\<rparr>"

definition empty_db :: db where
  "empty_db = \<lparr>Authors = [], Books = [], Borrows = []\<rparr>"

definition dune_db :: db where
  "dune_db =
     \<lparr>Authors = [\<lparr>AuthorID = 1, AuthorName = ''Frank Herbert'', BirthYear = Some 1920\<rparr>],
      Books = [\<lparr>BookID = 1, Title = ''Dune'', PublicationYear = Some 1965,
                Books_AuthorID = Some 1\<rparr>],
      Borrows = [\<lparr>BorrowID = 1, Borrows_BookID = 1, BorrowerName = ''Alice'',
                  DateBorrowed = ''2026-11-01'', ReturnDate = None\<rparr>]\<rparr>"

text \<open>The same library after Alice has brought the book back on 4 November 2026.\<close>

definition returned_db :: db where
  "returned_db =
     \<lparr>Authors = [\<lparr>AuthorID = 1, AuthorName = ''Frank Herbert'', BirthYear = Some 1920\<rparr>],
      Books = [\<lparr>BookID = 1, Title = ''Dune'', PublicationYear = Some 1965,
                Books_AuthorID = Some 1\<rparr>],
      Borrows = [\<lparr>BorrowID = 1, Borrows_BookID = 1, BorrowerName = ''Alice'',
                  DateBorrowed = ''2026-11-01'', ReturnDate = Some ''2026-11-04''\<rparr>]\<rparr>"

text \<open>
  The library after its book has been deleted from a database file whose Borrows table
  declares no key to Books: the borrow row stays, the book row is gone.
\<close>

definition orphan_db :: db where
  "orphan_db =
     \<lparr>Authors = [\<lparr>AuthorID = 1, AuthorName = ''Frank Herbert'', BirthYear = Some 1920\<rparr>],
      Books = [],
      Borrows = [\<lparr>BorrowID = 1, Borrows_BookID = 1, BorrowerName = ''Alice'',
                  DateBorrowed = ''2026-11-01'', ReturnDate = None\<rparr>]\<rparr>"

text \<open>An author and a book that were entered with the year 0.\<close>

definition zero_db :: db where
  "zero_db =
     \<lparr>Authors = [\<lparr>AuthorID = 1, AuthorName = ''Ovid'', BirthYear = Some 0\<rparr>],
      Books = [\<lparr>BookID = 1, Title = ''Fasti'', PublicationYear = Some 0,
                Books_AuthorID = None\<rparr>],
      Borrows = []\<rparr>"

text \<open>The number of outstanding borrows of a book.\<close>

definition open_count :: "db \<Rightarrow> int \<Rightarrow> nat" where
  "open_count db book_id =
     length (filter (\<lambda>r. Borrows_BookID r = book_id \<and> is_open r) (Borrows db))"

section \<open>Facts about the store primitives\<close>

lemma fetchone_None_iff: "fetchone xs = None \<longleftrightarrow> xs = []"
  by (simp add: fetchone_def split: list.splits)

lemma fetchone_filter_None: "fetchone (filter P xs) = None \<longleftrightarrow> (\<forall>x\<in>set xs. \<not> P x)"
  by (simp add: fetchone_None_iff filter_empty_conv)

lemma fetchone_Some_mem: "fetchone ys = Some x \<Longrightarrow> x \<in> set ys"
  by (cases ys) (simp_all add: fetchone_def)

lemma fetchone_filter_Some: "fetchone (filter P xs) = Some x \<Longrightarrow> x \<in> set xs \<and> P x"
  using fetchone_Some_mem [of "filter P xs" x] by simp

lemma fold_max_ge: "(i::int) \<le> fold max xs i \<and> (\<forall>x\<in>set xs. x \<le> fold max xs i)"
proof (induction xs arbitrary: i)
  case Nil
  then show ?case by simp
next
  case (Cons a xs)
  have 1: "max a i \<le> fold max xs (max a i)" using Cons.IH by blast
  have 2: "\<forall>x\<in>set xs. x \<le> fold max xs (max a i)" using Cons.IH by blast
  have 3: "i \<le> fold max xs (max a i)" using 1 by linarith
  have 4: "a \<le> fold max xs (max a i)" using 1 by linarith
  show ?case using 2 3 4 by simp
qed

lemma lastrowid_fresh: "lastrowid ids \<notin> set ids"
proof (cases ids)
  case Nil
  then show ?thesis by simp
next
  case (Cons i rest)
  have "\<forall>x\<in>set (i # rest). x < lastrowid (i # rest)"
    using fold_max_ge [of i rest] by (auto simp: lastrowid_def)
  then show ?thesis using Cons by blast
qed

lemma isoformat_nonempty: "isoformat d \<noteq> []"
  by (simp add: isoformat_def)

lemma py_int_1: "py_int ''1'' = Some 1"
  by (simp add: py_int_def int_strip_def int_space_def int_whitespace_def parse_unsigned_def
        digit_val_def)

lemma sqlite_int_1: "sqlite_int 1"
  by (simp add: sqlite_int_def)

text \<open>The id of a new row is not in use, and is one more than the largest id whenever
  that fits.\<close>

lemma new_rowid_fresh: "new_rowid e ids = Some i \<Longrightarrow> i \<notin> set ids"
  using lastrowid_fresh [of ids]
  by (auto simp add: new_rowid_def split: if_splits option.splits)

lemma new_rowid_lastrowid: "sqlite_int (lastrowid ids) \<Longrightarrow> new_rowid e ids = Some (lastrowid ids)"
  by (simp add: new_rowid_def sqlite_int_def)

text \<open>The insert statements always pass their read-back: the new row carries the new id.\<close>

lemma insert_author_ok:
  "insert_author e db name birth_year =
     (case new_rowid e (map AuthorID (Authors db)) of
        None \<Rightarrow> (Inl DatabaseError, db)
      | Some i \<Rightarrow>
          (Inr i, db\<lparr>Authors := Authors db @
                    [\<lparr>AuthorID = i, AuthorName = name, BirthYear = birth_year\<rparr>]\<rparr>))"
  by (simp add: insert_author_def Let_def fetchone_filter_None split: option.splits)

lemma insert_book_ok:
  assumes "\<forall>a. author_id = Some a \<longrightarrow> sqlite_int a \<and>
             (books_author_fk e = Undeclared \<or> a \<in> set (map AuthorID (Authors db)))"
  shows "insert_book e db title pub_year author_id =
     (case new_rowid e (map BookID (Books db)) of
        None \<Rightarrow> (Inl DatabaseError, db)
      | Some i \<Rightarrow>
          (Inr i, db\<lparr>Books := Books db @
                    [\<lparr>BookID = i, Title = title, PublicationYear = pub_year,
                      Books_AuthorID = author_id\<rparr>]\<rparr>))"
  using assms
  by (cases author_id)
    (auto simp add: insert_book_def Let_def fetchone_filter_None split: option.splits)

lemma py_strip_digit0: "py_strip ''0'' = ''0''"
  by (simp add: py_strip_def is_space_def whitespace_def)

lemma py_int_0: "py_int ''0'' = Some 0"
  by (simp add: py_int_def int_strip_def int_space_def int_whitespace_def parse_unsigned_def
        digit_val_def)

lemma py_strip_3: "py_strip ''3'' = ''3''"
  by (simp add: py_strip_def is_space_def whitespace_def)

lemma isoformat_example: "isoformat (Date 2026 11 4) = ''2026-11-04''"
  by (simp add: isoformat_def zfill_def str_nat.simps digit_char_def)

lemma fetchone_map: "fetchone (map f xs) = map_option f (fetchone xs)"
  by (cases xs) (simp_all add: fetchone_def)

lemma join_books_empty_iff:
  "join_books db rows = [] \<longleftrightarrow>
     (\<forall>br\<in>set rows. Borrows_BookID br \<notin> set (map BookID (Books db)))"
proof -
  have "join_books db rows = [] \<longleftrightarrow>
          (\<forall>br\<in>set rows. \<forall>b\<in>set (Books db). BookID b \<noteq> Borrows_BookID br)"
    by (simp add: join_books_def filter_empty_conv)
  also have "\<dots> \<longleftrightarrow> (\<forall>br\<in>set rows. Borrows_BookID br \<notin> set (map BookID (Books db)))"
    by (simp add: image_iff) metis
  finally show ?thesis .
qed

lemma filter_id_mark_returned:
  "filter (\<lambda>r. BorrowID r = i) (map (\<lambda>r. if BorrowID r = i then r\<lparr>ReturnDate := Some d\<rparr> else r) xs)
     = map (\<lambda>r. r\<lparr>ReturnDate := Some d\<rparr>) (filter (\<lambda>r. BorrowID r = i) xs)"
  by (induction xs) auto

lemma return_book_verify_after:
  assumes "r \<in> set (Borrows db)" "BorrowID r = i" "d \<noteq> []"
  shows "return_book_verify
           (db\<lparr>Borrows := map (\<lambda>r. if BorrowID r = i then r\<lparr>ReturnDate := Some d\<rparr> else r)
                             (Borrows db)\<rparr>) i"
proof -
  have "filter (\<lambda>r. BorrowID r = i) (Borrows db) \<noteq> []"
    using assms(1,2) by (auto simp: filter_empty_conv)
  then obtain x where "fetchone (filter (\<lambda>r. BorrowID r = i) (Borrows db)) = Some x"
    by (cases "filter (\<lambda>r. BorrowID r = i) (Borrows db)") (simp_all add: fetchone_def)
  then show ?thesis
    using assms(3)
    by (simp add: return_book_verify_def filter_id_mark_returned fetchone_map)
qed

lemma fetchone_nonempty: "xs \<noteq> [] \<Longrightarrow> \<exists>x. fetchone xs = Some x"
  by (cases xs) (simp_all add: fetchone_def)

lemma fetchone_only:
  assumes "length xs \<le> 1" and "r \<in> set xs"
  shows "fetchone xs = Some r"
proof (cases xs)
  case Nil
  then show ?thesis using assms(2) by simp
next
  case (Cons x rest)
  then have "rest = []" using assms(1) by simp
  then show ?thesis using Cons assms(2) by (simp add: fetchone_def)
qed

section \<open>What each operation does to the Borrows table\<close>

lemma add_author_borrows:
  "Borrows (snd (add_author e db n b)) = Borrows db \<and> Books (snd (add_author e db n b)) = Books db"
  by (simp add: add_author_def insert_author_ok Let_def split: option.splits)

lemma update_author_borrows: "Borrows (snd (update_author e db i n b)) = Borrows db"
  by (simp add: update_author_def write_author_def Let_def split: option.splits)

lemma insert_book_borrows: "Borrows (snd (insert_book e db t y a)) = Borrows db"
  by (simp add: insert_book_def Let_def split: option.splits)

lemma add_book_author_borrows:
  "Borrows (snd (add_book_author e db t y c a n b)) = Borrows db"
proof (cases "add_author e db n b")
  case (Pair res db1)
  then have "Borrows db1 = Borrows db"
    using add_author_borrows [of e db n b] by simp
  then show ?thesis
    using Pair
    by (cases res)
      (simp_all add: add_book_author_def Let_def insert_book_borrows split: option.splits)
qed

lemma add_book_borrows: "Borrows (snd (add_book e db t y c a n b)) = Borrows db"
  by (simp add: add_book_def Let_def add_book_author_borrows split: option.splits)

lemma update_book_title_borrows: "Borrows (snd (update_book_title e db i t)) = Borrows db"
  by (simp add: update_book_title_def Let_def split: option.splits)

lemma filter_self_ex: "\<exists>Q. xs = filter Q xs"
  by (rule exI [of _ "\<lambda>_. True"]) simp

lemma filter_filter_ex: "\<exists>Q. filter P xs = filter Q xs"
  by (rule exI [of _ P]) simp

lemma sql_delete_books_effect:
  assumes "sql_delete_books fk P db = Some db'"
  shows "Authors db' = Authors db \<and> Books db' = filter (\<lambda>b. \<not> P b) (Books db)
       \<and> (\<exists>Q. Borrows db' = filter Q (Borrows db))"
proof -
  let ?kept = "filter (\<lambda>b. \<not> P b) (Books db)"
  let ?Q = "\<lambda>r. Borrows_BookID r \<notin> set (map BookID (filter P (Books db)))"
  have "db' = db\<lparr>Books := ?kept\<rparr>
      \<or> db' = db\<lparr>Books := ?kept, Borrows := filter ?Q (Borrows db)\<rparr>"
    using assms
    by (cases fk) (simp_all add: sql_delete_books_def Let_def split: if_splits)
  then show ?thesis
  proof
    assume "db' = db\<lparr>Books := ?kept\<rparr>"
    then show ?thesis by (simp add: filter_self_ex)
  next
    assume "db' = db\<lparr>Books := ?kept, Borrows := filter ?Q (Borrows db)\<rparr>"
    then show ?thesis by (simp add: filter_filter_ex)
  qed
qed

lemma sql_delete_author_effect:
  assumes "sql_delete_author e i db = Some db'"
  shows "Authors db' = filter (\<lambda>a. AuthorID a \<noteq> i) (Authors db)
       \<and> (\<exists>Q. Borrows db' = filter Q (Borrows db))"
proof (cases "books_author_fk e = Cascade")
  case True
  then obtain db1 where d: "sql_delete_books (borrows_book_fk e)
                     (\<lambda>b. Books_AuthorID b = Some i) db = Some db1"
      and db': "db' = db1\<lparr>Authors := filter (\<lambda>a. AuthorID a \<noteq> i) (Authors db)\<rparr>"
    using assms by (simp add: sql_delete_author_def Let_def split: option.splits)
  show ?thesis using sql_delete_books_effect [OF d] db' by simp
next
  case False
  then have "Authors db' = filter (\<lambda>a. AuthorID a \<noteq> i) (Authors db)
           \<and> Borrows db' = Borrows db"
    using assms
    by (cases "books_author_fk e")
      (simp_all add: sql_delete_author_def Let_def split: if_splits, auto)
  then show ?thesis by (simp add: filter_self_ex)
qed

lemma delete_book_cases:
  "snd (delete_book e db i c) = db
   \<or> (\<exists>b db'. py_int i = Some b
         \<and> sql_delete_books (borrows_book_fk e) (\<lambda>x. BookID x = b) db = Some db'
         \<and> snd (delete_book e db i c) = db')"
  by (simp add: delete_book_def split: option.splits)

lemma delete_author_cases:
  "snd (delete_author e db i c) = db
   \<or> (\<exists>a db'. py_int i = Some a \<and> sql_delete_author e a db = Some db'
         \<and> snd (delete_author e db i c) = db')"
  by (simp add: delete_author_def split: option.splits)

lemma delete_book_borrows: "\<exists>Q. Borrows (snd (delete_book e db i c)) = filter Q (Borrows db)"
  using delete_book_cases [of e db i c]
proof
  assume "snd (delete_book e db i c) = db"
  then show ?thesis by (simp add: filter_self_ex)
next
  assume "\<exists>b db'. py_int i = Some b
         \<and> sql_delete_books (borrows_book_fk e) (\<lambda>x. BookID x = b) db = Some db'
         \<and> snd (delete_book e db i c) = db'"
  then obtain b db' where
    d: "sql_delete_books (borrows_book_fk e) (\<lambda>x. BookID x = b) db = Some db'"
    and s: "snd (delete_book e db i c) = db'" by blast
  show ?thesis using sql_delete_books_effect [OF d] s by simp
qed

lemma delete_author_borrows: "\<exists>Q. Borrows (snd (delete_author e db i c)) = filter Q (Borrows db)"
  using delete_author_cases [of e db i c]
proof
  assume "snd (delete_author e db i c) = db"
  then show ?thesis by (simp add: filter_self_ex)
next
  assume "\<exists>a db'. py_int i = Some a \<and> sql_delete_author e a db = Some db'
         \<and> snd (delete_author e db i c) = db'"
  then obtain a db' where
    d: "sql_delete_author e a db = Some db'"
    and s: "snd (delete_author e db i c) = db'" by blast
  show ?thesis using sql_delete_author_effect [OF d] s by simp
qed


lemma borrow_book_cases:
  "snd (borrow_book e db i n) = db
   \<or> (\<exists>b k. fetchone (filter (\<lambda>r. Borrows_BookID r = b \<and> is_open r) (Borrows db)) = None
         \<and> new_rowid e (map BorrowID (Borrows db)) = Some k
         \<and> snd (borrow_book e db i n) =
             db\<lparr>Borrows := Borrows db @
               [\<lparr>BorrowID = k, Borrows_BookID = b,
                 BorrowerName = py_strip n, DateBorrowed = isoformat (today e),
                 ReturnDate = None\<rparr>]\<rparr>)"
proof (cases "py_int i")
  case None
  then show ?thesis by (simp add: borrow_book_def)
next
  case (Some b)
  let ?open = "fetchone (filter (\<lambda>r. Borrows_BookID r = b \<and> is_open r) (Borrows db))"
  let ?book = "fetchone (filter (\<lambda>x. BookID x = b) (Books db))"
  show ?thesis
  proof (cases "py_strip n \<noteq> [] \<and> sqlite_int b \<and> ?book \<noteq> None \<and> ?open = None")
    case True
    show ?thesis
    proof (cases "new_rowid e (map BorrowID (Borrows db))")
      case None
      then have "snd (borrow_book e db i n) = db"
        using Some True by (auto simp add: borrow_book_def Let_def)
      then show ?thesis by simp
    next
      case (Some k)
      then have "snd (borrow_book e db i n) =
             db\<lparr>Borrows := Borrows db @
               [\<lparr>BorrowID = k, Borrows_BookID = b,
                 BorrowerName = py_strip n, DateBorrowed = isoformat (today e),
                 ReturnDate = None\<rparr>]\<rparr>"
        using \<open>py_int i = Some b\<close> True by (auto simp add: borrow_book_def Let_def)
      then show ?thesis using True Some by blast
    qed
  next
    case False
    then have "snd (borrow_book e db i n) = db"
      using Some by (auto simp add: borrow_book_def Let_def split: option.splits)
    then show ?thesis by simp
  qed
qed

lemma return_book_cases:
  "snd (return_book e db i) = db
   \<or> (\<exists>b. (\<exists>r\<in>set (Borrows db). BorrowID r = b \<and> is_open r)
         \<and> snd (return_book e db i) =
             db\<lparr>Borrows := map (\<lambda>r. if BorrowID r = b
                                     then r\<lparr>ReturnDate := Some (isoformat (today e))\<rparr>
                                     else r) (Borrows db)\<rparr>)"
proof (cases "py_int i")
  case None
  then show ?thesis by (simp add: return_book_def)
next
  case (Some b)
  show ?thesis
  proof (cases "\<exists>r\<in>set (Borrows db). BorrowID r = b \<and> is_open r")
    case True
    then show ?thesis using Some
      by (simp add: return_book_def Let_def split: option.splits) blast
  next
    case False
    then have "filter (\<lambda>r. BorrowID r = b \<and> is_open r) (Borrows db) = []"
      by (simp add: filter_empty_conv)
    then show ?thesis using Some
      by (simp add: return_book_def join_books_def fetchone_def)
  qed
qed

text \<open>How one command changes the Borrows table.\<close>

lemma exec_borrows:
  "(\<exists>Q. Borrows (exec e c db) = filter Q (Borrows db))
   \<or> (\<exists>b d. (\<exists>r\<in>set (Borrows db). BorrowID r = b \<and> is_open r)
         \<and> Borrows (exec e c db) =
             map (\<lambda>r. if BorrowID r = b then r\<lparr>ReturnDate := Some d\<rparr> else r) (Borrows db))
   \<or> (\<exists>r. is_open r \<and> open_count db (Borrows_BookID r) = 0
         \<and> BorrowID r \<notin> set (map BorrowID (Borrows db))
         \<and> Borrows (exec e c db) = Borrows db @ [r])"
proof (cases c)
  case (AddBook t y ch a n b)
  then show ?thesis by (simp add: add_book_borrows filter_self_ex)
next
  case (UpdateBookTitle i t)
  then show ?thesis by (simp add: update_book_title_borrows filter_self_ex)
next
  case (DeleteBook i cf)
  then show ?thesis using delete_book_borrows [of e db i cf] by simp
next
  case (AddAuthor n b)
  then show ?thesis by (simp add: add_author_borrows filter_self_ex)
next
  case (UpdateAuthor i n b)
  then show ?thesis by (simp add: update_author_borrows filter_self_ex)
next
  case (DeleteAuthor i cf)
  then show ?thesis using delete_author_borrows [of e db i cf] by simp
next
  case (BorrowBook i n)
  from borrow_book_cases [of e db i n] show ?thesis
  proof
    assume "snd (borrow_book e db i n) = db"
    then show ?thesis using BorrowBook by (simp add: filter_self_ex)
  next
    assume "\<exists>b k. fetchone (filter (\<lambda>r. Borrows_BookID r = b \<and> is_open r) (Borrows db)) = None
         \<and> new_rowid e (map BorrowID (Borrows db)) = Some k
         \<and> snd (borrow_book e db i n) =
             db\<lparr>Borrows := Borrows db @
               [\<lparr>BorrowID = k, Borrows_BookID = b,
                 BorrowerName = py_strip n, DateBorrowed = isoformat (today e),
                 ReturnDate = None\<rparr>]\<rparr>"
    then obtain b k where
      none: "fetchone (filter (\<lambda>r. Borrows_BookID r = b \<and> is_open r) (Borrows db)) = None"
      and k: "new_rowid e (map BorrowID (Borrows db)) = Some k"
      and s: "snd (borrow_book e db i n) =
             db\<lparr>Borrows := Borrows db @
               [\<lparr>BorrowID = k, Borrows_BookID = b,
                 BorrowerName = py_strip n, DateBorrowed = isoformat (today e),
                 ReturnDate = None\<rparr>]\<rparr>" by blast
    have "open_count db b = 0"
      using none by (simp add: open_count_def fetchone_None_iff)
    moreover have "k \<notin> set (map BorrowID (Borrows db))"
      using new_rowid_fresh [OF k] .
    ultimately have "\<exists>r. is_open r \<and> open_count db (Borrows_BookID r) = 0
         \<and> BorrowID r \<notin> set (map BorrowID (Borrows db))
         \<and> Borrows (exec e c db) = Borrows db @ [r]"
      using s BorrowBook
      by (intro exI [of _ "\<lparr>BorrowID = k,
             Borrows_BookID = b, BorrowerName = py_strip n,
             DateBorrowed = isoformat (today e), ReturnDate = None\<rparr>"])
        (simp add: is_open_def)
    then show ?thesis by blast
  qed
next
  case (ReturnBook i)
  from return_book_cases [of e db i] show ?thesis
  proof
    assume "snd (return_book e db i) = db"
    then show ?thesis using ReturnBook by (simp add: filter_self_ex)
  next
    assume "\<exists>b. (\<exists>r\<in>set (Borrows db). BorrowID r = b \<and> is_open r)
         \<and> snd (return_book e db i) =
             db\<lparr>Borrows := map (\<lambda>r. if BorrowID r = b
                                     then r\<lparr>ReturnDate := Some (isoformat (today e))\<rparr>
                                     else r) (Borrows db)\<rparr>"
    then obtain b where ex: "\<exists>r\<in>set (Borrows db). BorrowID r = b \<and> is_open r"
      and s: "snd (return_book e db i) =
             db\<lparr>Borrows := map (\<lambda>r. if BorrowID r = b
                                     then r\<lparr>ReturnDate := Some (isoformat (today e))\<rparr>
                                     else r) (Borrows db)\<rparr>" by blast
    have "Borrows (exec e c db) = map (\<lambda>r. if BorrowID r = b
                                     then r\<lparr>ReturnDate := Some (isoformat (today e))\<rparr>
                                     else r) (Borrows db)"
      using s ReturnBook by simp
    then show ?thesis using ex by blast
  qed
qed

lemma length_filter_filter_le: "length (filter P (filter Q xs)) \<le> length (filter P xs)"
  by (induction xs) auto

lemma length_open_after_return:
  "length (filter (\<lambda>r. Borrows_BookID r = k \<and> is_open r)
             (map (\<lambda>r. if BorrowID r = b then r\<lparr>ReturnDate := Some d\<rparr> else r) xs))
   \<le> length (filter (\<lambda>r. Borrows_BookID r = k \<and> is_open r) xs)"
  by (induction xs) (auto simp: is_open_def)

lemma distinct_map_same:
  "distinct (map f xs) \<Longrightarrow> x \<in> set xs \<Longrightarrow> y \<in> set xs \<Longrightarrow> f x = f y \<Longrightarrow> x = y"
  by (meson distinct_map inj_onD)

lemma map_id_after_return:
  "map BorrowID (map (\<lambda>r. if BorrowID r = b then r\<lparr>ReturnDate := Some d\<rparr> else r) xs)
     = map BorrowID xs"
  by (induction xs) auto

lemma py_yes: "py_strip (py_lower ''yes'') = ''yes''"
  by (simp add: py_strip_def py_lower_def lower_char_def capitals_def small_letters_def
        is_space_def whitespace_def)

lemma join_books_mem:
  "(br, bk) \<in> set (join_books db rows) \<Longrightarrow>
     br \<in> set rows \<and> bk \<in> set (Books db) \<and> BookID bk = Borrows_BookID br"
  by (auto simp: join_books_def)

lemma borrowed_rows_book:
  assumes "row \<in> set (borrowed_rows only_outstanding db)"
  shows "Borrows_BookID (fst row) \<in> set (map BookID (Books db))"
proof -
  obtain br bk where row: "row = (br, bk)" by (cases row)
  then have "(br, bk) \<in> set (join_books db
               (if only_outstanding then filter is_open (Borrows db) else Borrows db))"
    using assms by (simp add: borrowed_rows_def)
  then have "bk \<in> set (Books db) \<and> BookID bk = Borrows_BookID br"
    using join_books_mem by blast
  then show ?thesis using row by force
qed

lemma gone_ids:
  assumes "b \<in> set (map BookID (Books db))"
  shows "set (map BookID (filter (\<lambda>x. BookID x = b) (Books db))) = {b}"
  using assms by auto

lemma delete_book_verify_iff:
  "delete_book_verify db b \<longleftrightarrow> b \<notin> set (map BookID (Books db))"
  by (auto simp: delete_book_verify_def fetchone_filter_None)

lemma delete_author_verify_iff:
  "delete_author_verify db a \<longleftrightarrow> a \<notin> set (map AuthorID (Authors db))"
  by (auto simp: delete_author_verify_def fetchone_filter_None)

lemma sql_delete_books_nothing:
  assumes "filter P (Books db) = []"
  shows "sql_delete_books fk P db \<noteq> None"
  using assms by (cases fk) (simp_all add: sql_delete_books_def Let_def)

lemma sql_delete_author_accepts:
  assumes "books_author_fk e = Undeclared \<or> books_author_fk e = SetNull \<or> book_count db a = 0"
  shows "sql_delete_author e a db \<noteq> None"
proof (cases "book_count db a = 0")
  case True
  then have none: "filter (\<lambda>b. Books_AuthorID b = Some a) (Books db) = []"
    by (simp add: book_count_def)
  show ?thesis
  proof (cases "books_author_fk e")
    case Cascade
    then show ?thesis
      using sql_delete_books_nothing [OF none, of "borrows_book_fk e"]
      by (auto simp add: sql_delete_author_def Let_def split: option.splits)
  qed (simp_all add: sql_delete_author_def Let_def none)
next
  case False
  then have "books_author_fk e = Undeclared \<or> books_author_fk e = SetNull"
    using assms by auto
  then show ?thesis by (auto simp add: sql_delete_author_def Let_def)
qed

section \<open>Adding a book and updating an author\<close>

text \<open>
  \<open>add_book\<close> after its two validations, the two paths on which it takes an author id,
  and \<open>update_author\<close> on a table whose AuthorID is a key.
\<close>

lemma py_int_Nil: "py_int [] = None"
  by (simp add: py_int_def int_strip_def)

lemma py_int_nonempty: "py_int s = Some v \<Longrightarrow> s \<noteq> []"
  using py_int_Nil by force

lemma add_book_valid:
  assumes "py_strip title_in \<noteq> []"
    and "py_strip pub_year_in = [] \<or>
         (\<exists>y. py_int (py_strip pub_year_in) = Some y \<and> 0 \<le> y \<and> y \<le> int (year (today e)) + 10)"
  shows "add_book e db title_in pub_year_in c a n b =
           add_book_author e db (py_strip title_in)
             (if py_strip pub_year_in = [] then None else py_int (py_strip pub_year_in)) c a n b"
  using assms(2)
proof
  assume "py_strip pub_year_in = []"
  then show ?thesis using assms(1) by (simp add: add_book_def Let_def)
next
  assume "\<exists>y. py_int (py_strip pub_year_in) = Some y \<and> 0 \<le> y \<and> y \<le> int (year (today e)) + 10"
  then obtain y where y: "py_int (py_strip pub_year_in) = Some y" "0 \<le> y"
    "y \<le> int (year (today e)) + 10" by blast
  then have "py_strip pub_year_in \<noteq> []" using py_int_nonempty by blast
  then show ?thesis using assms(1) y by (simp add: add_book_def Let_def)
qed

lemma add_book_author_existing_missing:
  assumes "py_strip c = ''1''" and "py_int (py_strip a_in) = Some a" and "sqlite_int a"
    and "a \<notin> set (map AuthorID (Authors db))"
  shows "add_book_author e db t y c a_in n b = (Inl ReferenceError, db)"
proof -
  have ne: "py_strip a_in \<noteq> []" using assms(2) py_int_nonempty by blast
  have "fetchone (filter (\<lambda>x. AuthorID x = a) (Authors db)) = None"
    using assms(4) by (auto simp: fetchone_filter_None)
  then show ?thesis using assms(1,2,3) ne by (simp add: add_book_author_def Let_def)
qed

lemma add_book_author_new_missing:
  assumes "py_strip c = ''2''" and "py_int (py_strip a_in) = Some a" and "sqlite_int a"
    and "books_author_fk e \<noteq> Undeclared"
    and "\<not> isl (fst (add_author e db n b))"
    and "a \<notin> set (map AuthorID (Authors (snd (add_author e db n b))))"
  shows "add_book_author e db t y c a_in n b = (Inl ReferenceError, snd (add_author e db n b))"
proof -
  have ne: "py_strip a_in \<noteq> []" using assms(2) py_int_nonempty by blast
  obtain res db1 where r: "add_author e db n b = (res, db1)" by (cases "add_author e db n b")
  then obtain new_id where res: "res = Inr new_id" using assms(5) by (cases res) simp_all
  have "insert_book e db1 t y (Some a) = (Inl ReferenceError, db1)"
    using assms(3,4,6) r by (simp add: insert_book_def)
  then show ?thesis using assms(1,2) ne r res by (simp add: add_book_author_def Let_def)
qed

lemma py_strip_Emma: "py_strip ''Emma'' = ''Emma''"
  by (simp add: py_strip_def is_space_def whitespace_def)

lemma py_strip_1815: "py_strip ''1815'' = ''1815''"
  by (simp add: py_strip_def is_space_def whitespace_def)

lemma py_int_1815: "py_int ''1815'' = Some 1815"
  by (simp add: py_int_def int_strip_def int_space_def int_whitespace_def parse_unsigned_def
        digit_val_def)

lemma py_strip_7: "py_strip ''7'' = ''7''"
  by (simp add: py_strip_def is_space_def whitespace_def)

lemma py_int_7: "py_int ''7'' = Some 7"
  by (simp add: py_int_def int_strip_def int_space_def int_whitespace_def parse_unsigned_def
        digit_val_def)

lemma py_strip_1: "py_strip ''1'' = ''1''"
  by (simp add: py_strip_def is_space_def whitespace_def)

lemma py_strip_2: "py_strip ''2'' = ''2''"
  by (simp add: py_strip_def is_space_def whitespace_def)

lemma py_strip_Jane_Austen: "py_strip ''Jane Austen'' = ''Jane Austen''"
  by (simp add: py_strip_def is_space_def whitespace_def)

lemma py_strip_1775: "py_strip ''1775'' = ''1775''"
  by (simp add: py_strip_def is_space_def whitespace_def)

lemma py_int_1775: "py_int ''1775'' = Some 1775"
  by (simp add: py_int_def int_strip_def int_space_def int_whitespace_def parse_unsigned_def
        digit_val_def)

lemma filter_id_only:
  "distinct (map f xs) \<Longrightarrow> a \<in> set xs \<Longrightarrow> filter (\<lambda>x. f x = f a) xs = [a]"
proof (induction xs)
  case Nil
  then show ?case by simp
next
  case (Cons x xs)
  show ?case
  proof (cases "x = a")
    case True
    have "f a \<notin> f ` set xs" using Cons.prems(1) True by simp
    then have "filter (\<lambda>x. f x = f a) xs = []" by (auto simp: filter_empty_conv image_iff)
    then show ?thesis using True by simp
  next
    case False
    then have m: "a \<in> set xs" using Cons.prems(2) by simp
    have "f x \<notin> f ` set xs" using Cons.prems(1) by simp
    then have "f x \<noteq> f a" using m by blast
    moreover have "filter (\<lambda>x. f x = f a) xs = [a]" using Cons.IH Cons.prems(1) m by simp
    ultimately show ?thesis by simp
  qed
qed

lemma write_author_ok:
  assumes ids: "distinct (map AuthorID (Authors db))" and a: "a \<in> set (Authors db)"
  shows "write_author db (AuthorID a) nm yr =
           (Inr (), db\<lparr>Authors :=
              map (\<lambda>x. if x = a then a\<lparr>AuthorName := nm, BirthYear := yr\<rparr> else x)
                (Authors db)\<rparr>)"
proof -
  let ?g = "\<lambda>x. if x = a then a\<lparr>AuthorName := nm, BirthYear := yr\<rparr> else x"
  have same: "map (\<lambda>x. if AuthorID x = AuthorID a
                         then x\<lparr>AuthorName := nm, BirthYear := yr\<rparr> else x) (Authors db)
              = map ?g (Authors db)"
  proof (rule map_cong [OF refl])
    fix x assume "x \<in> set (Authors db)"
    then have "AuthorID x = AuthorID a \<longleftrightarrow> x = a"
      using distinct_map_same [OF ids _ a] by blast
    then show "(if AuthorID x = AuthorID a then x\<lparr>AuthorName := nm, BirthYear := yr\<rparr> else x)
               = ?g x" by auto
  qed
  have "filter (\<lambda>x. AuthorID x = AuthorID a) (map ?g (Authors db))
          = map ?g (filter ((\<lambda>x. AuthorID x = AuthorID a) \<circ> ?g) (Authors db))"
    by (simp only: filter_map)
  also have "(\<lambda>x. AuthorID x = AuthorID a) \<circ> ?g = (\<lambda>x. AuthorID x = AuthorID a)"
    by (auto simp: fun_eq_iff)
  also have "filter (\<lambda>x. AuthorID x = AuthorID a) (Authors db) = [a]"
    using filter_id_only [OF ids a] .
  finally have "filter (\<lambda>x. AuthorID x = AuthorID a) (map ?g (Authors db))
                  = [a\<lparr>AuthorName := nm, BirthYear := yr\<rparr>]" by simp
  then show ?thesis unfolding write_author_def Let_def same by (simp add: fetchone_def)
qed

lemma update_author_partial:
  assumes ids: "distinct (map AuthorID (Authors db))" and a: "a \<in> set (Authors db)"
    and typed: "py_int j_in = Some (AuthorID a)" and fits: "sqlite_int (AuthorID a)"
    and ok: "py_strip yr_in = [] \<or>
             (\<exists>y. py_int (py_strip yr_in) = Some y \<and> 0 \<le> y \<and> y \<le> int (year (today e)))"
  shows "update_author e db j_in name_in yr_in =
           (Inr (), db\<lparr>Authors :=
              map (\<lambda>x. if x = a
                        then a\<lparr>AuthorName := (if py_strip name_in = [] then AuthorName a
                                               else py_strip name_in),
                               BirthYear := (if py_strip yr_in = [] then BirthYear a
                                             else py_int (py_strip yr_in))\<rparr>
                        else x) (Authors db)\<rparr>)"
proof -
  have f: "fetchone (filter (\<lambda>x. AuthorID x = AuthorID a) (Authors db)) = Some a"
    using filter_id_only [OF ids a] by (simp add: fetchone_def)
  from ok show ?thesis
  proof
    assume "py_strip yr_in = []"
    then show ?thesis using typed fits f write_author_ok [OF ids a]
      by (simp add: update_author_def Let_def)
  next
    assume "\<exists>y. py_int (py_strip yr_in) = Some y \<and> 0 \<le> y \<and> y \<le> int (year (today e))"
    then obtain y where y: "py_int (py_strip yr_in) = Some y" "0 \<le> y"
      "y \<le> int (year (today e))" by blast
    then have "py_strip yr_in \<noteq> []" using py_int_nonempty by blast
    then show ?thesis using typed fits f y write_author_ok [OF ids a]
      by (simp add: update_author_def Let_def)
  qed
qed

lemma py_strip_Jane_Doe: "py_strip ''Jane Doe'' = ''Jane Doe''"
  by (simp add: py_strip_def is_space_def whitespace_def)

lemma py_strip_1970: "py_strip ''1970'' = ''1970''"
  by (simp add: py_strip_def is_space_def whitespace_def)

lemma py_int_1970: "py_int ''1970'' = Some 1970"
  by (simp add: py_int_def int_strip_def int_space_def int_whitespace_def parse_unsigned_def
        digit_val_def)

lemma py_strip_1971: "py_strip ''1971'' = ''1971''"
  by (simp add: py_strip_def is_space_def whitespace_def)

lemma py_int_1971: "py_int ''1971'' = Some 1971"
  by (simp add: py_int_def int_strip_def int_space_def int_whitespace_def parse_unsigned_def
        digit_val_def)

lemma py_strip_Nil: "py_strip [] = []"
  by (simp add: py_strip_def)

lemma add_author_Jane_Doe:
  assumes "1970 \<le> year (today e)" and "sqlite_int (lastrowid (map AuthorID (Authors db)))"
  shows "add_author e db ''Jane Doe'' ''1970'' =
     (Inr (lastrowid (map AuthorID (Authors db))),
      db\<lparr>Authors := Authors db @
        [\<lparr>AuthorID = lastrowid (map AuthorID (Authors db)), AuthorName = ''Jane Doe'',
          BirthYear = Some 1970\<rparr>]\<rparr>)"
  using assms
  by (simp add: add_author_def py_strip_Jane_Doe py_strip_1970 py_int_1970 insert_author_ok
        new_rowid_lastrowid)

lemma filter_fresh_id:
  "filter (\<lambda>a. AuthorID a = lastrowid (map AuthorID xs)) xs = []"
  using lastrowid_fresh [of "map AuthorID xs"] by (auto simp: filter_empty_conv image_iff)

lemma select_authors_id:
  "filter P (select_authors db) = sort_key AuthorName (filter P (Authors db))"
  by (simp add: select_authors_def filter_sort)

lemma filter_id_map_row:
  "AuthorID a' = AuthorID a \<Longrightarrow>
     filter (\<lambda>x. AuthorID x = i) (map (\<lambda>x. if x = a then a' else x) xs)
       = map (\<lambda>x. if x = a then a' else x) (filter (\<lambda>x. AuthorID x = i) xs)"
  by (induction xs) auto

lemma py_strip_1921: "py_strip ''1921'' = ''1921''"
  by (simp add: py_strip_def is_space_def whitespace_def)

lemma py_int_1921: "py_int ''1921'' = Some 1921"
  by (simp add: py_int_def int_strip_def int_space_def int_whitespace_def parse_unsigned_def
        digit_val_def)

lemma py_int_2: "py_int ''2'' = Some 2"
  by (simp add: py_int_def int_strip_def int_space_def int_whitespace_def parse_unsigned_def
        digit_val_def)

lemma py_strip_F_Herbert: "py_strip ''F. Herbert'' = ''F. Herbert''"
  by (simp add: py_strip_def is_space_def whitespace_def)

section \<open>Listings, prompts and refusals\<close>

text \<open>
  An author id that no author row has, on the two paths of \<open>add_book\<close> that take one. With
  choice 1 the function refuses it. With choice 2 the function does not look at it, and
  the store refuses the row when the key from Books to Authors is declared.
\<close>

lemma add_book_missing_author:
  assumes "py_strip title_in \<noteq> []"
    and "py_strip pub_year_in = [] \<or>
         (\<exists>y. py_int (py_strip pub_year_in) = Some y \<and> 0 \<le> y \<and> y \<le> int (year (today e)) + 10)"
    and "py_int (py_strip author_id_in) = Some a" and "sqlite_int a"
  shows "(py_strip choice_in = ''1'' \<and> a \<notin> set (map AuthorID (Authors db)) \<longrightarrow>
            add_book e db title_in pub_year_in choice_in author_id_in name_in birth_year_in
              = (Inl ReferenceError, db))
       \<and> (py_strip choice_in = ''2'' \<and> books_author_fk e \<noteq> Undeclared
            \<and> \<not> isl (fst (add_author e db name_in birth_year_in))
            \<and> a \<notin> set (map AuthorID (Authors (snd (add_author e db name_in birth_year_in))))
          \<longrightarrow>
            add_book e db title_in pub_year_in choice_in author_id_in name_in birth_year_in
              = (Inl ReferenceError, snd (add_author e db name_in birth_year_in))
            \<and> Books (snd (add_book e db title_in pub_year_in choice_in author_id_in name_in
                             birth_year_in)) = Books db)"
proof -
  have ab:
    "add_book e db title_in pub_year_in choice_in author_id_in name_in birth_year_in =
       add_book_author e db (py_strip title_in)
         (if py_strip pub_year_in = [] then None else py_int (py_strip pub_year_in))
         choice_in author_id_in name_in birth_year_in"
    using add_book_valid [OF assms(1,2)] .
  have one: "add_book e db title_in pub_year_in choice_in author_id_in name_in birth_year_in
              = (Inl ReferenceError, db)"
    if "py_strip choice_in = ''1''" "a \<notin> set (map AuthorID (Authors db))"
    using ab add_book_author_existing_missing [OF that(1) assms(3,4) that(2)] by simp
  have two: "add_book e db title_in pub_year_in choice_in author_id_in name_in birth_year_in
              = (Inl ReferenceError, snd (add_author e db name_in birth_year_in))
            \<and> Books (snd (add_book e db title_in pub_year_in choice_in author_id_in name_in
                             birth_year_in)) = Books db"
    if "py_strip choice_in = ''2''" "books_author_fk e \<noteq> Undeclared"
      "\<not> isl (fst (add_author e db name_in birth_year_in))"
      "a \<notin> set (map AuthorID (Authors (snd (add_author e db name_in birth_year_in))))"
    using ab add_book_author_new_missing [OF that(1) assms(3,4) that(2,3,4)]
      add_author_borrows [of e db name_in birth_year_in] by simp
  show ?thesis using one two by blast
qed

lemma add_author_Jane_Austen_undeclared:
  "add_author (env_of Undeclared Cascade) dune_db ''Jane Austen'' ''1775'' =
     (Inr 2, dune_db\<lparr>Authors := Authors dune_db @
        [\<lparr>AuthorID = 2, AuthorName = ''Jane Austen'', BirthYear = Some 1775\<rparr>]\<rparr>)"
  by (simp add: add_author_def py_strip_Jane_Austen py_strip_1775 py_int_1775 env_of_def
        insert_author_ok new_rowid_def lastrowid_def dune_db_def)

lemma py_str_1: "py_str 1 = ''1''"
  by (simp add: py_str_def str_nat.simps digit_char_def)

lemma ljust_Unknown_10: "ljust 10 ''Unknown'' = ''Unknown   ''"
  by (simp add: ljust_def eval_nat_numeral)

lemma ljust_Unknown_6: "ljust 6 ''Unknown'' = ''Unknown''"
  by (simp add: ljust_def)

lemma author_line_year:
  "author_line x =
     ljust 4 (py_str (AuthorID x)) @ '' '' @ ljust 30 (shorten 30 (AuthorName x)) @ '' ''
       @ ljust 10 (render_year (BirthYear x))"
  by (simp add: author_line_def author_fields_def)

lemma book_line_year:
  "book_line (i, t, y, a) =
     ljust 4 (py_str i) @ '' '' @ ljust 30 (shorten 30 t) @ '' '' @ ljust 6 (render_year y)
       @ '' '' @ ljust 20 (case a of None \<Rightarrow> ''Unknown Author''
                           | Some n \<Rightarrow> if n \<noteq> [] then n else ''Unknown Author'')"
  by (simp add: book_line_def book_fields_def)

lemma view_authors_lines:
  assumes "x \<in> set (Authors db)"
  shows "author_line x \<in> set (view_authors db)"
proof -
  have "x \<in> set (select_authors db)" using assms by (simp add: select_authors_def)
  then have "select_authors db \<noteq> []" "author_line x \<in> set (map author_line (select_authors db))"
    by auto
  then show ?thesis by (simp add: view_authors_def Let_def)
qed

lemma select_books_row:
  assumes "b \<in> set (Books db)"
  shows "\<exists>a. (BookID b, Title b, PublicationYear b, a) \<in> set (select_books db)"
proof (cases "filter (\<lambda>a. Some (AuthorID a) = Books_AuthorID b) (Authors db)")
  case Nil
  then have "(BookID b, Title b, PublicationYear b, None) \<in> set (select_books db)"
    using assms by (force simp add: select_books_def)
  then show ?thesis by blast
next
  case (Cons m ms)
  then have "(BookID b, Title b, PublicationYear b, Some (AuthorName m)) \<in> set (select_books db)"
    using assms by (force simp add: select_books_def)
  then show ?thesis by blast
qed

lemma view_all_books_lines:
  assumes "row \<in> set (select_books db)"
  shows "book_line row \<in> set (view_all_books db)"
proof -
  have "select_books db \<noteq> []" "book_line row \<in> set (map book_line (select_books db))"
    using assms by auto
  then show ?thesis by (simp add: view_all_books_def Let_def)
qed

lemma borrow_book_open:
  assumes "py_int book_id_in = Some b"
    and "r \<in> set (Borrows db)" and "Borrows_BookID r = b" and "is_open r"
  shows "\<exists>cur. fetchone (filter (\<lambda>x. Borrows_BookID x = b \<and> is_open x) (Borrows db)) = Some cur
           \<and> cur \<in> set (Borrows db) \<and> Borrows_BookID cur = b \<and> is_open cur
           \<and> (open_count db b \<le> 1 \<longrightarrow> cur = r)"
proof -
  let ?open = "filter (\<lambda>x. Borrows_BookID x = b \<and> is_open x) (Borrows db)"
  have rin: "r \<in> set ?open" using assms(2,3,4) by simp
  then have "?open \<noteq> []" by (metis empty_iff list.set(1))
  then obtain cur where cur: "fetchone ?open = Some cur"
    using fetchone_nonempty by blast
  have curin: "cur \<in> set (Borrows db) \<and> Borrows_BookID cur = b \<and> is_open cur"
    using fetchone_filter_Some [OF cur] by simp
  have "cur = r" if "open_count db b \<le> 1"
    using fetchone_only [of ?open r] that rin cur by (simp add: open_count_def)
  then show ?thesis using cur curin by blast
qed

lemma py_strip_Bob: "py_strip ''Bob'' = ''Bob''"
  by (simp add: py_strip_def is_space_def whitespace_def)

lemma py_strip_blank: "py_strip ''  '' = []"
  by (simp add: py_strip_def is_space_def whitespace_def)

lemma py_int_two_63: "py_int ''9223372036854775808'' = Some 9223372036854775808"
  by (simp add: py_int_def int_strip_def int_space_def int_whitespace_def parse_unsigned_def
        digit_val_def)

lemma sql_delete_author_rejects:
  assumes "books_author_fk e = NoAction" and "book_count db a \<noteq> 0"
  shows "sql_delete_author e a db = None"
  using assms by (simp add: sql_delete_author_def book_count_def Let_def)

lemma delete_author_prompt_text:
  assumes "py_int author_id_in = Some a" and "sqlite_int a"
    and "a \<in> set (map AuthorID (Authors db))"
  shows "\<exists>au\<in>set (Authors db). AuthorID au = a \<and>
           delete_author_prompt db author_id_in =
             Some (''Are you sure you want to delete '' @ [CHR 0x27] @ AuthorName au
                   @ [CHR 0x27] @ ''?''
                   @ (if book_count db a = 0 then []
                      else '' This will affect '' @ py_str (int (book_count db a))
                             @ '' book(s).'')
                   @ '' (yes/no): '')"
proof -
  have "filter (\<lambda>x. AuthorID x = a) (Authors db) \<noteq> []"
    using assms(3) by (auto simp: filter_empty_conv)
  then obtain au where au: "fetchone (filter (\<lambda>x. AuthorID x = a) (Authors db)) = Some au"
    using fetchone_nonempty by blast
  have mem: "au \<in> set (Authors db) \<and> AuthorID au = a"
    using fetchone_filter_Some [OF au] by simp
  have "delete_author_prompt db author_id_in =
             Some (''Are you sure you want to delete '' @ [CHR 0x27] @ AuthorName au
                   @ [CHR 0x27] @ ''?''
                   @ (if book_count db a = 0 then []
                      else '' This will affect '' @ py_str (int (book_count db a))
                             @ '' book(s).'')
                   @ '' (yes/no): '')"
    using assms(1,2) au by (simp add: delete_author_prompt_def delete_author_warning_def)
  then show ?thesis using mem by blast
qed

section \<open>Deleting asks for a yes\<close>

text \<open>
  Claim C9. \<open>delete_book\<close> and \<open>delete_author\<close> write nothing unless the answer to the
  confirmation prompt, lower-cased and then stripped, is exactly \<open>yes\<close>: on every other
  answer, whatever id was typed, the operation reports a failure and the store (Authors,
  Books and Borrows) is the one it started from.
\<close>

theorem delete_needs_yes:
  assumes "py_strip (py_lower confirm_in) \<noteq> ''yes''"
  shows "isl (fst (delete_book e db book_id_in confirm_in))
       \<and> snd (delete_book e db book_id_in confirm_in) = db
       \<and> isl (fst (delete_author e db author_id_in confirm_in))
       \<and> snd (delete_author e db author_id_in confirm_in) = db"
  using assms by (simp add: delete_book_def delete_author_def split: option.splits)

theorem delete_needs_yes_witness:
  "py_strip (py_lower '' No '') \<noteq> ''yes''
   \<and> isl (fst (delete_book (env_of NoAction Cascade) dune_db ''1'' '' No ''))
   \<and> snd (delete_book (env_of NoAction Cascade) dune_db ''1'' '' No '') = dune_db
   \<and> isl (fst (delete_author (env_of NoAction Cascade) dune_db ''1'' '' No ''))
   \<and> snd (delete_author (env_of NoAction Cascade) dune_db ''1'' '' No '') = dune_db"
proof -
  have no: "py_strip (py_lower '' No '') \<noteq> ''yes''"
    by (simp add: py_strip_def py_lower_def lower_char_def capitals_def small_letters_def
        is_space_def whitespace_def)
  show ?thesis
    using no delete_needs_yes [OF no, of "env_of NoAction Cascade" dune_db "''1''" "''1''"]
    by simp
qed

section \<open>A year of zero in the listings\<close>

text \<open>
  Claim C10. The year 0 passes both range checks: \<open>add_author\<close> and \<open>add_book\<close> store it.
  In the listings of \<open>view_authors\<close> and \<open>view_all_books\<close>, the line of every stored row
  whose year is 0 has \<open>Unknown\<close> in the year column, and so has the line of a row with no
  year: the two lines are the same. A year other than 0 is printed as the number. The
  listings test the truth value of the column (\<open>str(y) if y else "Unknown"\<close>), and 0 is
  false.
\<close>

theorem year_zero_renders_unknown:
  "render_year (Some 0) = ''Unknown'' \<and> render_year None = ''Unknown''
   \<and> (v \<noteq> 0 \<longrightarrow> render_year (Some v) = py_str v)
   \<and> (x \<in> set (Authors db) \<and> (BirthYear x = Some 0 \<or> BirthYear x = None) \<longrightarrow>
        ljust 4 (py_str (AuthorID x)) @ '' '' @ ljust 30 (shorten 30 (AuthorName x)) @ '' ''
          @ ''Unknown   '' \<in> set (view_authors db))
   \<and> (x \<in> set (Authors db) \<and> BirthYear x = Some v \<and> v \<noteq> 0 \<longrightarrow>
        ljust 4 (py_str (AuthorID x)) @ '' '' @ ljust 30 (shorten 30 (AuthorName x)) @ '' ''
          @ ljust 10 (py_str v) \<in> set (view_authors db))
   \<and> (b \<in> set (Books db) \<and> (PublicationYear b = Some 0 \<or> PublicationYear b = None) \<longrightarrow>
        (\<exists>a. ljust 4 (py_str (BookID b)) @ '' '' @ ljust 30 (shorten 30 (Title b)) @ '' ''
               @ ''Unknown'' @ '' '' @ ljust 20 a \<in> set (view_all_books db)))
   \<and> (b \<in> set (Books db) \<and> PublicationYear b = Some v \<and> v \<noteq> 0 \<longrightarrow>
        (\<exists>a. ljust 4 (py_str (BookID b)) @ '' '' @ ljust 30 (shorten 30 (Title b)) @ '' ''
               @ ljust 6 (py_str v) @ '' '' @ ljust 20 a \<in> set (view_all_books db)))
   \<and> author_line \<lparr>AuthorID = i, AuthorName = n, BirthYear = Some 0\<rparr>
       = author_line \<lparr>AuthorID = i, AuthorName = n, BirthYear = None\<rparr>
   \<and> book_line (i, t, Some 0, au) = book_line (i, t, None, au)
   \<and> (py_strip name_in \<noteq> [] \<and> new_rowid e (map AuthorID (Authors db)) = Some k \<longrightarrow>
        add_author e db name_in ''0'' =
          (Inr k, db\<lparr>Authors := Authors db @
             [\<lparr>AuthorID = k, AuthorName = py_strip name_in, BirthYear = Some 0\<rparr>]\<rparr>))
   \<and> (py_strip title_in \<noteq> [] \<and> new_rowid e (map BookID (Books db)) = Some k \<longrightarrow>
        add_book e db title_in ''0'' ''3'' a_in n_in b_in =
          (Inr k, db\<lparr>Books := Books db @
             [\<lparr>BookID = k, Title = py_strip title_in,
               PublicationYear = Some 0, Books_AuthorID = None\<rparr>]\<rparr>))"
proof -
  have r: "render_year (Some 0) = ''Unknown''" "render_year None = ''Unknown''"
    by (simp_all add: render_year_def)
  have rv: "render_year (Some v) = py_str v" if "v \<noteq> 0"
    using that by (simp add: render_year_def)
  have al: "ljust 4 (py_str (AuthorID x)) @ '' '' @ ljust 30 (shorten 30 (AuthorName x)) @ '' ''
              @ ljust 10 (render_year (BirthYear x)) \<in> set (view_authors db)"
    if "x \<in> set (Authors db)"
    using view_authors_lines [OF that] author_line_year [of x] by simp
  have a0: "ljust 4 (py_str (AuthorID x)) @ '' '' @ ljust 30 (shorten 30 (AuthorName x)) @ '' ''
              @ ''Unknown   '' \<in> set (view_authors db)"
    if "x \<in> set (Authors db)" "BirthYear x = Some 0 \<or> BirthYear x = None"
    using al [OF that(1)] that(2) r ljust_Unknown_10 by auto
  have av: "ljust 4 (py_str (AuthorID x)) @ '' '' @ ljust 30 (shorten 30 (AuthorName x)) @ '' ''
              @ ljust 10 (py_str v) \<in> set (view_authors db)"
    if "x \<in> set (Authors db)" "BirthYear x = Some v" "v \<noteq> 0"
    using al [OF that(1)] that(2) rv [OF that(3)] by simp
  have bl: "\<exists>a. ljust 4 (py_str (BookID b)) @ '' '' @ ljust 30 (shorten 30 (Title b)) @ '' ''
              @ ljust 6 (render_year (PublicationYear b)) @ '' '' @ ljust 20 a
              \<in> set (view_all_books db)"
    if bm: "b \<in> set (Books db)"
  proof -
    obtain a where "(BookID b, Title b, PublicationYear b, a) \<in> set (select_books db)"
      using select_books_row [OF bm] by blast
    then have "book_line (BookID b, Title b, PublicationYear b, a) \<in> set (view_all_books db)"
      by (rule view_all_books_lines)
    then show ?thesis unfolding book_line_year by blast
  qed
  have b0: "\<exists>a. ljust 4 (py_str (BookID b)) @ '' '' @ ljust 30 (shorten 30 (Title b)) @ '' ''
               @ ''Unknown'' @ '' '' @ ljust 20 a \<in> set (view_all_books db)"
    if "b \<in> set (Books db)" "PublicationYear b = Some 0 \<or> PublicationYear b = None"
    using bl [OF that(1)] that(2) r ljust_Unknown_6 by auto
  have bv: "\<exists>a. ljust 4 (py_str (BookID b)) @ '' '' @ ljust 30 (shorten 30 (Title b)) @ '' ''
               @ ljust 6 (py_str v) @ '' '' @ ljust 20 a \<in> set (view_all_books db)"
    if "b \<in> set (Books db)" "PublicationYear b = Some v" "v \<noteq> 0"
    using bl [OF that(1)] that(2) rv [OF that(3)] by simp
  have aa: "add_author e db name_in ''0'' =
          (Inr k, db\<lparr>Authors := Authors db @
             [\<lparr>AuthorID = k, AuthorName = py_strip name_in, BirthYear = Some 0\<rparr>]\<rparr>)"
    if "py_strip name_in \<noteq> []" "new_rowid e (map AuthorID (Authors db)) = Some k"
    using that by (simp add: add_author_def Let_def py_strip_digit0 py_int_0 insert_author_ok)
  have ab: "add_book e db title_in ''0'' ''3'' a_in n_in b_in =
          (Inr k, db\<lparr>Books := Books db @
             [\<lparr>BookID = k, Title = py_strip title_in,
               PublicationYear = Some 0, Books_AuthorID = None\<rparr>]\<rparr>)"
    if "py_strip title_in \<noteq> []" "new_rowid e (map BookID (Books db)) = Some k"
    using that
    by (simp add: add_book_def add_book_author_def Let_def py_strip_digit0 py_int_0
          py_strip_3 insert_book_ok)
  have ae: "author_line \<lparr>AuthorID = i, AuthorName = n, BirthYear = Some 0\<rparr>
       = author_line \<lparr>AuthorID = i, AuthorName = n, BirthYear = None\<rparr>"
    by (simp add: author_line_def author_fields_def r)
  have be: "book_line (i, t, Some 0, au) = book_line (i, t, None, au)"
    by (simp add: book_line_def book_fields_def r)
  show ?thesis using r rv a0 av b0 bv ae be aa ab by blast
qed

theorem year_zero_renders_unknown_witness:
  "py_strip ''Ovid'' \<noteq> [] \<and> py_strip ''Fasti'' \<noteq> []
   \<and> add_author (env_of NoAction Cascade) empty_db ''Ovid'' ''0'' =
       (Inr 1, \<lparr>Authors = [\<lparr>AuthorID = 1, AuthorName = ''Ovid'', BirthYear = Some 0\<rparr>],
                Books = [], Borrows = []\<rparr>)
   \<and> add_book (env_of NoAction Cascade) empty_db ''Fasti'' ''0'' ''3'' [] [] [] =
       (Inr 1, \<lparr>Authors = [],
                Books = [\<lparr>BookID = 1, Title = ''Fasti'', PublicationYear = Some 0,
                          Books_AuthorID = None\<rparr>],
                Borrows = []\<rparr>)
   \<and> ''1   '' @ '' '' @ ljust 30 ''Ovid'' @ '' '' @ ''Unknown   '' \<in> set (view_authors zero_db)
   \<and> ''1   '' @ '' '' @ ljust 30 ''Fasti'' @ '' '' @ ''Unknown'' @ '' ''
        @ ljust 20 ''Unknown Author'' \<in> set (view_all_books zero_db)
   \<and> render_year (Some 1920) = ''1920''"
proof -
  let ?e = "env_of NoAction Cascade"
  let ?ovid = "\<lparr>AuthorID = 1, AuthorName = ''Ovid'', BirthYear = Some 0\<rparr>"
  have s: "py_strip ''Ovid'' = ''Ovid''" "py_strip ''Fasti'' = ''Fasti''"
    by (simp_all add: py_strip_def is_space_def whitespace_def)
  have k: "new_rowid ?e (map AuthorID (Authors empty_db)) = Some 1"
    "new_rowid ?e (map BookID (Books empty_db)) = Some 1"
    by (simp_all add: new_rowid_def lastrowid_def empty_db_def)
  note T = year_zero_renders_unknown [where name_in = "''Ovid''" and title_in = "''Fasti''"
        and e = ?e and db = empty_db and k = 1 and a_in = "[]" and n_in = "[]" and b_in = "[]"]
  have aa: "add_author ?e empty_db ''Ovid'' ''0'' =
       (Inr 1, \<lparr>Authors = [?ovid], Books = [], Borrows = []\<rparr>)"
    using T s k by (simp add: empty_db_def)
  have ab: "add_book ?e empty_db ''Fasti'' ''0'' ''3'' [] [] [] =
       (Inr 1, \<lparr>Authors = [],
                Books = [\<lparr>BookID = 1, Title = ''Fasti'', PublicationYear = Some 0,
                          Books_AuthorID = None\<rparr>],
                Borrows = []\<rparr>)"
    using T s k by (simp add: empty_db_def)
  have m: "?ovid \<in> set (Authors zero_db)" by (simp add: zero_db_def)
  have al: "''1   '' @ '' '' @ ljust 30 ''Ovid'' @ '' '' @ ''Unknown   ''
              \<in> set (view_authors zero_db)"
    using year_zero_renders_unknown [where x = ?ovid and db = zero_db] m
    by (simp add: py_str_1 ljust_def shorten_def eval_nat_numeral)
  have bl: "''1   '' @ '' '' @ ljust 30 ''Fasti'' @ '' '' @ ''Unknown'' @ '' ''
        @ ljust 20 ''Unknown Author'' \<in> set (view_all_books zero_db)"
    by (simp add: view_all_books_def select_books_def zero_db_def book_line_def
          book_fields_def render_year_def py_str_1 ljust_def shorten_def eval_nat_numeral)
  have rv: "render_year (Some 1920) = ''1920''"
    using year_zero_renders_unknown [where v = 1920]
    by (simp add: py_str_def str_nat.simps digit_char_def)
  show ?thesis using s aa ab al bl rv by simp
qed

section \<open>Returning a book\<close>

text \<open>
  Claim C3, as the code has it. \<open>return_book\<close> looks for the row in
  \<open>Borrows JOIN Books\<close>, so an outstanding row counts only if its book row exists. For
  an id the user types as a number: when the number does not fit SQLite's 64-bit INTEGER,
  binding it raises OverflowError and the store is as it was; when no outstanding Borrow
  row with a book row has the id (no row has the id, or the row has a ReturnDate already,
  or its book row is missing), \<open>return_book\<close> fails with NotFoundError and leaves the
  store as it was; when an outstanding row with a book row has the id, \<open>return_book\<close>
  succeeds: every row with that id gets today's date as its ReturnDate, the others stay
  as they are, and the read-back finds a ReturnDate that is not null.
\<close>

theorem return_book_outcome:
  assumes "py_int borrow_id_in = Some i"
  shows "(\<not> sqlite_int i \<longrightarrow> return_book e db borrow_id_in = (Inl OverflowError, db))
       \<and> (sqlite_int i
            \<and> \<not> (\<exists>r\<in>set (Borrows db). BorrowID r = i \<and> is_open r
                     \<and> Borrows_BookID r \<in> set (map BookID (Books db))) \<longrightarrow>
            return_book e db borrow_id_in = (Inl NotFoundError, db))
       \<and> (\<forall>r\<in>set (Borrows db).
            sqlite_int i \<and> BorrowID r = i \<and> is_open r
            \<and> Borrows_BookID r \<in> set (map BookID (Books db)) \<longrightarrow>
              return_book e db borrow_id_in =
                (Inr (), db\<lparr>Borrows :=
                   map (\<lambda>x. if BorrowID x = i
                             then x\<lparr>ReturnDate := Some (isoformat (today e))\<rparr> else x)
                       (Borrows db)\<rparr>)
              \<and> return_book_verify (snd (return_book e db borrow_id_in)) i
              \<and> r\<lparr>ReturnDate := Some (isoformat (today e))\<rparr>
                  \<in> set (Borrows (snd (return_book e db borrow_id_in))))"
proof -
  let ?open = "filter (\<lambda>r. BorrowID r = i \<and> is_open r) (Borrows db)"
  have big: "return_book e db borrow_id_in = (Inl OverflowError, db)" if "\<not> sqlite_int i"
    using that assms by (simp add: return_book_def)
  have none: "return_book e db borrow_id_in = (Inl NotFoundError, db)"
    if fits: "sqlite_int i"
      and no: "\<not> (\<exists>r\<in>set (Borrows db). BorrowID r = i \<and> is_open r
                     \<and> Borrows_BookID r \<in> set (map BookID (Books db)))"
  proof -
    have "\<forall>br\<in>set ?open. Borrows_BookID br \<notin> set (map BookID (Books db))"
      using no by auto
    then have "join_books db ?open = []" by (simp only: join_books_empty_iff)
    then have "fetchone (join_books db ?open) = None" by (simp add: fetchone_def)
    then show ?thesis using assms fits by (simp add: return_book_def)
  qed
  have some: "return_book e db borrow_id_in =
                (Inr (), db\<lparr>Borrows :=
                   map (\<lambda>x. if BorrowID x = i
                             then x\<lparr>ReturnDate := Some (isoformat (today e))\<rparr> else x)
                       (Borrows db)\<rparr>)
              \<and> return_book_verify (snd (return_book e db borrow_id_in)) i
              \<and> r\<lparr>ReturnDate := Some (isoformat (today e))\<rparr>
                  \<in> set (Borrows (snd (return_book e db borrow_id_in)))"
    if r: "r \<in> set (Borrows db)" and fits: "sqlite_int i"
      and h: "BorrowID r = i" "is_open r" "Borrows_BookID r \<in> set (map BookID (Books db))"
    for r
  proof -
    let ?db' = "db\<lparr>Borrows :=
                   map (\<lambda>x. if BorrowID x = i
                             then x\<lparr>ReturnDate := Some (isoformat (today e))\<rparr> else x)
                       (Borrows db)\<rparr>"
    have "r \<in> set ?open" using r h by simp
    then have "join_books db ?open \<noteq> []"
      using h(3) unfolding join_books_empty_iff by blast
    then obtain info where "fetchone (join_books db ?open) = Some info"
      using fetchone_nonempty by blast
    moreover have v: "return_book_verify ?db' i"
      using return_book_verify_after [OF r h(1) isoformat_nonempty] .
    ultimately have res: "return_book e db borrow_id_in = (Inr (), ?db')"
      using assms fits by (simp add: return_book_def Let_def)
    have mem: "r\<lparr>ReturnDate := Some (isoformat (today e))\<rparr> \<in> set (Borrows ?db')"
      using r h(1) by force
    show ?thesis using res v mem by simp
  qed
  show ?thesis using big none some by blast
qed

theorem return_book_outcome_witness:
  "py_int ''1'' = Some 1 \<and> sqlite_int 1
   \<and> \<not> (\<exists>r\<in>set (Borrows returned_db). BorrowID r = 1 \<and> is_open r)
   \<and> return_book (env_of NoAction Cascade) returned_db ''1'' = (Inl NotFoundError, returned_db)
   \<and> (\<exists>r\<in>set (Borrows dune_db).
         BorrowID r = 1 \<and> is_open r \<and> Borrows_BookID r \<in> set (map BookID (Books dune_db)))
   \<and> return_book (env_of NoAction Cascade) dune_db ''1'' = (Inr (), returned_db)"
  using py_int_1 sqlite_int_1
    return_book_outcome [OF py_int_1, where db = returned_db and e = "env_of NoAction Cascade"]
    return_book_outcome [OF py_int_1, where db = dune_db and e = "env_of NoAction Cascade"]
  by (simp add: dune_db_def returned_db_def is_open_def env_of_def isoformat_example)

text \<open>
  Claim C3, as stated, fails. After the library's book has been deleted from a database
  file whose Borrows table declares no key to Books, borrow 1 is still outstanding, and
  returning it fails with NotFoundError: the join finds no book. And for the id
  \<open>2 ^ 63\<close>, which no row has, the operation fails with OverflowError, not NotFoundError.
\<close>

theorem return_book_needs_the_book_row:
  "snd (delete_book (env_of NoAction Undeclared) dune_db ''1'' ''yes'') = orphan_db
   \<and> \<lparr>BorrowID = 1, Borrows_BookID = 1, BorrowerName = ''Alice'',
       DateBorrowed = ''2026-11-01'', ReturnDate = None\<rparr> \<in> set (Borrows orphan_db)
   \<and> return_book (env_of NoAction Undeclared) orphan_db ''1'' = (Inl NotFoundError, orphan_db)
   \<and> return_book (env_of NoAction Cascade) dune_db ''9223372036854775808''
       = (Inl OverflowError, dune_db)"
proof -
  have c: "snd (delete_book (env_of NoAction Undeclared) dune_db ''1'' ''yes'') = orphan_db"
    by (simp add: delete_book_def py_int_1 sqlite_int_1 py_yes dune_db_def env_of_def
          fetchone_def sql_delete_books_def delete_book_verify_def orphan_db_def)
  have m: "\<lparr>BorrowID = 1, Borrows_BookID = 1, BorrowerName = ''Alice'',
       DateBorrowed = ''2026-11-01'', ReturnDate = None\<rparr> \<in> set (Borrows orphan_db)"
    by (simp add: orphan_db_def)
  have n: "return_book (env_of NoAction Undeclared) orphan_db ''1''
             = (Inl NotFoundError, orphan_db)"
    by (simp add: return_book_def py_int_1 sqlite_int_1 orphan_db_def join_books_def
          fetchone_def is_open_def)
  have o: "return_book (env_of NoAction Cascade) dune_db ''9223372036854775808''
       = (Inl OverflowError, dune_db)"
    by (simp add: return_book_def py_int_two_63 sqlite_int_def)
  show ?thesis using c m n o by blast
qed

section \<open>Borrowing a book that is out\<close>

text \<open>
  Claim C2, as the code has it. When the store holds an outstanding Borrow row for the
  book whose id the user types, \<open>borrow_book\<close> inserts no Borrow row: the store is
  unchanged. What it reports is decided in the order of the function: a blank borrower's
  name is a ValidationError; an id that does not fit SQLite's 64-bit INTEGER raises
  OverflowError; an id that no book row has is a NotFoundError; otherwise the operation
  fails with ConflictError, and the report names the borrower of an outstanding row of
  that book; when the book has at most one outstanding row, it names the borrower of that
  row.
\<close>

theorem borrow_book_conflict:
  assumes "py_int book_id_in = Some b"
    and "r \<in> set (Borrows db)" and "Borrows_BookID r = b" and "is_open r"
  shows "snd (borrow_book e db book_id_in borrower_in) = db
       \<and> (py_strip borrower_in = [] \<longrightarrow>
            fst (borrow_book e db book_id_in borrower_in) = Inl ValidationError)
       \<and> (py_strip borrower_in \<noteq> [] \<and> \<not> sqlite_int b \<longrightarrow>
            fst (borrow_book e db book_id_in borrower_in) = Inl OverflowError)
       \<and> (py_strip borrower_in \<noteq> [] \<and> sqlite_int b \<and> b \<notin> set (map BookID (Books db)) \<longrightarrow>
            fst (borrow_book e db book_id_in borrower_in) = Inl NotFoundError)
       \<and> (py_strip borrower_in \<noteq> [] \<and> sqlite_int b \<and> b \<in> set (map BookID (Books db)) \<longrightarrow>
            (\<exists>cur\<in>set (Borrows db). Borrows_BookID cur = b \<and> is_open cur \<and>
               fst (borrow_book e db book_id_in borrower_in)
                 = Inl (ConflictError (BorrowerName cur)))
            \<and> (open_count db b \<le> 1 \<longrightarrow>
                 fst (borrow_book e db book_id_in borrower_in)
                   = Inl (ConflictError (BorrowerName r))))"
proof -
  obtain cur where cur:
    "fetchone (filter (\<lambda>x. Borrows_BookID x = b \<and> is_open x) (Borrows db)) = Some cur"
    and curin: "cur \<in> set (Borrows db)" "Borrows_BookID cur = b" "is_open cur"
    and only: "open_count db b \<le> 1 \<longrightarrow> cur = r"
    using borrow_book_open [OF assms] by blast
  have blank: "borrow_book e db book_id_in borrower_in = (Inl ValidationError, db)"
    if "py_strip borrower_in = []"
    using that assms(1) by (simp add: borrow_book_def Let_def)
  have big: "borrow_book e db book_id_in borrower_in = (Inl OverflowError, db)"
    if "py_strip borrower_in \<noteq> []" "\<not> sqlite_int b"
    using that assms(1) by (simp add: borrow_book_def Let_def)
  have missing: "borrow_book e db book_id_in borrower_in = (Inl NotFoundError, db)"
    if "py_strip borrower_in \<noteq> []" "sqlite_int b" "b \<notin> set (map BookID (Books db))"
  proof -
    have "fetchone (filter (\<lambda>x. BookID x = b) (Books db)) = None"
      using that(3) by (auto simp: fetchone_filter_None)
    then show ?thesis using that(1,2) assms(1) by (simp add: borrow_book_def Let_def)
  qed
  have conflict: "borrow_book e db book_id_in borrower_in
                    = (Inl (ConflictError (BorrowerName cur)), db)"
    if "py_strip borrower_in \<noteq> []" "sqlite_int b" "b \<in> set (map BookID (Books db))"
  proof -
    have "filter (\<lambda>x. BookID x = b) (Books db) \<noteq> []"
      using that(3) by (auto simp: filter_empty_conv)
    then obtain book where "fetchone (filter (\<lambda>x. BookID x = b) (Books db)) = Some book"
      using fetchone_nonempty by blast
    then show ?thesis using that(1,2) assms(1) cur by (simp add: borrow_book_def Let_def)
  qed
  have same: "snd (borrow_book e db book_id_in borrower_in) = db"
    using blank big missing conflict by (metis snd_conv)
  show ?thesis
    using same blank big missing conflict curin only by (metis fst_conv)
qed

theorem borrow_book_conflict_witness:
  "py_int ''1'' = Some 1 \<and> sqlite_int 1 \<and> py_strip ''Bob'' \<noteq> []
   \<and> 1 \<in> set (map BookID (Books dune_db))
   \<and> open_count dune_db 1 \<le> 1
   \<and> borrow_book (env_of NoAction Cascade) dune_db ''1'' ''Bob''
        = (Inl (ConflictError ''Alice''), dune_db)"
proof -
  let ?r = "\<lparr>BorrowID = 1, Borrows_BookID = 1, BorrowerName = ''Alice'',
             DateBorrowed = ''2026-11-01'', ReturnDate = None\<rparr>"
  have bob: "py_strip ''Bob'' \<noteq> []" by (simp add: py_strip_Bob)
  have bk: "1 \<in> set (map BookID (Books dune_db))" by (simp add: dune_db_def)
  have rin: "?r \<in> set (Borrows dune_db)" by (simp add: dune_db_def)
  have rb: "Borrows_BookID ?r = 1" by simp
  have ro: "is_open ?r" by (simp add: is_open_def)
  have one: "open_count dune_db 1 \<le> 1" by (simp add: open_count_def dune_db_def)
  have "fst (borrow_book (env_of NoAction Cascade) dune_db ''1'' ''Bob'')
          = Inl (ConflictError ''Alice'')
        \<and> snd (borrow_book (env_of NoAction Cascade) dune_db ''1'' ''Bob'') = dune_db"
    using borrow_book_conflict [OF py_int_1 rin rb ro, of "env_of NoAction Cascade" "''Bob''"]
      bob bk one sqlite_int_1 by simp
  then have "borrow_book (env_of NoAction Cascade) dune_db ''1'' ''Bob''
        = (Inl (ConflictError ''Alice''), dune_db)"
    by (metis prod.collapse)
  then show ?thesis using py_int_1 sqlite_int_1 bob bk one by blast
qed

text \<open>
  Claim C2, as stated, fails. The library's book is out, and borrowing it with a blank
  name fails with ValidationError, not ConflictError. After the book has been deleted from
  a database file whose Borrows table declares no key to Books, its borrow is still
  outstanding, and borrowing the book fails with NotFoundError.
\<close>

theorem borrow_book_other_failures_first:
  "open_count dune_db 1 = 1
   \<and> borrow_book (env_of NoAction Cascade) dune_db ''1'' ''  '' = (Inl ValidationError, dune_db)
   \<and> snd (delete_book (env_of NoAction Undeclared) dune_db ''1'' ''yes'') = orphan_db
   \<and> open_count orphan_db 1 = 1
   \<and> borrow_book (env_of NoAction Undeclared) orphan_db ''1'' ''Bob''
       = (Inl NotFoundError, orphan_db)"
proof -
  have a: "open_count dune_db 1 = 1" by (simp add: open_count_def dune_db_def is_open_def)
  have b: "borrow_book (env_of NoAction Cascade) dune_db ''1'' ''  ''
             = (Inl ValidationError, dune_db)"
    by (simp add: borrow_book_def py_int_1 py_strip_blank)
  have c: "snd (delete_book (env_of NoAction Undeclared) dune_db ''1'' ''yes'') = orphan_db"
    by (simp add: delete_book_def py_int_1 sqlite_int_1 py_yes dune_db_def env_of_def
          fetchone_def sql_delete_books_def delete_book_verify_def orphan_db_def)
  have d: "open_count orphan_db 1 = 1" by (simp add: open_count_def orphan_db_def is_open_def)
  have f: "borrow_book (env_of NoAction Undeclared) orphan_db ''1'' ''Bob''
             = (Inl NotFoundError, orphan_db)"
    by (simp add: borrow_book_def py_int_1 py_strip_Bob sqlite_int_1 orphan_db_def fetchone_def)
  show ?thesis using a b c d f by blast
qed

section \<open>At most one outstanding borrow per book\<close>

text \<open>
  Claim C1. From any store in which every BookID has at most one Borrow row with no
  ReturnDate, each operation that writes (adding, updating and deleting books and authors,
  borrowing, returning), on any answers and under any declared foreign keys, leads to a
  store in which every BookID has at most one Borrow row with no ReturnDate.
\<close>

theorem single_outstanding_preserved:
  assumes "\<forall>b. open_count db b \<le> 1"
  shows "\<forall>b. open_count (exec e c db) b \<le> 1"
proof
  fix k
  have old: "open_count db k \<le> 1" using assms by blast
  from exec_borrows [of e c db] consider
    (filtered) Q where "Borrows (exec e c db) = filter Q (Borrows db)"
  | (returned) b d where "Borrows (exec e c db) =
        map (\<lambda>r. if BorrowID r = b then r\<lparr>ReturnDate := Some d\<rparr> else r) (Borrows db)"
  | (borrowed) r where "is_open r" "open_count db (Borrows_BookID r) = 0"
        "Borrows (exec e c db) = Borrows db @ [r]"
    by blast
  then show "open_count (exec e c db) k \<le> 1"
  proof cases
    case filtered
    have "open_count (exec e c db) k \<le> open_count db k"
      unfolding open_count_def filtered by (rule length_filter_filter_le)
    then show ?thesis using old by linarith
  next
    case returned
    have "open_count (exec e c db) k \<le> open_count db k"
      unfolding open_count_def returned by (rule length_open_after_return)
    then show ?thesis using old by linarith
  next
    case borrowed
    show ?thesis
    proof (cases "Borrows_BookID r = k")
      case True
      then have "open_count db k = 0" using borrowed(2) by simp
      then show ?thesis using borrowed(3) True by (simp add: open_count_def)
    next
      case False
      then have "open_count (exec e c db) k = open_count db k"
        using borrowed(3) by (simp add: open_count_def)
      then show ?thesis using old by linarith
    qed
  qed
qed

theorem single_outstanding_preserved_witness:
  "(\<forall>b. open_count returned_db b \<le> 1)
   \<and> (\<forall>b. open_count (exec (env_of NoAction Cascade) (BorrowBook ''1'' ''Bob'') returned_db) b
          \<le> 1)"
proof -
  have h: "\<forall>b. open_count returned_db b \<le> 1"
    by (simp add: open_count_def returned_db_def is_open_def)
  show ?thesis
    using h single_outstanding_preserved [OF h, of "env_of NoAction Cascade"
        "BorrowBook ''1'' ''Bob''"]
    by blast
qed

section \<open>A return date is written once\<close>

text \<open>
  Claim C4. In a store whose BorrowIDs are distinct (the primary key), take a Borrow row
  that has a ReturnDate. After any one operation that writes, \<open>return_book\<close> on the same
  or another id included, every row with that BorrowID is the row itself, unchanged (or the
  row is gone, with its book); and the BorrowIDs are distinct again, so the same holds
  after the operation that follows.
\<close>

theorem return_date_never_changes:
  assumes ids: "distinct (map BorrowID (Borrows db))"
    and r: "r \<in> set (Borrows db)" and ret: "ReturnDate r \<noteq> None"
  shows "(\<forall>r'\<in>set (Borrows (exec e c db)). BorrowID r' = BorrowID r \<longrightarrow> r' = r)
       \<and> distinct (map BorrowID (Borrows (exec e c db)))"
proof -
  from exec_borrows [of e c db] consider
    (filtered) Q where "Borrows (exec e c db) = filter Q (Borrows db)"
  | (returned) b d where "\<exists>x\<in>set (Borrows db). BorrowID x = b \<and> is_open x"
      "Borrows (exec e c db) =
        map (\<lambda>r. if BorrowID r = b then r\<lparr>ReturnDate := Some d\<rparr> else r) (Borrows db)"
  | (borrowed) n where "BorrowID n \<notin> set (map BorrowID (Borrows db))"
        "Borrows (exec e c db) = Borrows db @ [n]"
    by blast
  then show ?thesis
  proof cases
    case filtered
    have "\<forall>r'\<in>set (Borrows (exec e c db)). BorrowID r' = BorrowID r \<longrightarrow> r' = r"
      using filtered distinct_map_same [OF ids _ r] by simp
    moreover have "distinct (map BorrowID (Borrows (exec e c db)))"
      using filtered ids by (simp add: distinct_map_filter)
    ultimately show ?thesis by blast
  next
    case returned
    then obtain x where x: "x \<in> set (Borrows db)" "BorrowID x = b" "is_open x" by blast
    have nb: "BorrowID r \<noteq> b"
    proof
      assume "BorrowID r = b"
      then have "x = r" using distinct_map_same [OF ids x(1) r] x(2) by simp
      then show False using x(3) ret by (simp add: is_open_def)
    qed
    have "r' = r" if "r' \<in> set (Borrows (exec e c db))" "BorrowID r' = BorrowID r" for r'
    proof -
      from that(1) returned(2) obtain y where y: "y \<in> set (Borrows db)"
        "r' = (if BorrowID y = b then y\<lparr>ReturnDate := Some d\<rparr> else y)" by auto
      then have "BorrowID y = BorrowID r" using that(2) by (simp split: if_splits)
      then have "y = r" using distinct_map_same [OF ids y(1) r] by simp
      then show ?thesis using y(2) nb by simp
    qed
    moreover have "distinct (map BorrowID (Borrows (exec e c db)))"
      using returned(2) ids by (simp only: map_id_after_return)
    ultimately show ?thesis by blast
  next
    case borrowed
    have fresh: "BorrowID n \<notin> set (map BorrowID (Borrows db))"
      using borrowed(1) .
    have "BorrowID r \<in> set (map BorrowID (Borrows db))" using r by simp
    then have "BorrowID n \<noteq> BorrowID r" using fresh by metis
    then have "\<forall>r'\<in>set (Borrows (exec e c db)). BorrowID r' = BorrowID r \<longrightarrow> r' = r"
      using borrowed(2) distinct_map_same [OF ids _ r] by auto
    moreover have "distinct (map BorrowID (Borrows (exec e c db)))"
      using borrowed(2) ids fresh by simp
    ultimately show ?thesis by blast
  qed
qed

theorem return_date_never_changes_witness:
  "distinct (map BorrowID (Borrows returned_db))
   \<and> \<lparr>BorrowID = 1, Borrows_BookID = 1, BorrowerName = ''Alice'',
       DateBorrowed = ''2026-11-01'', ReturnDate = Some ''2026-11-04''\<rparr>
        \<in> set (Borrows returned_db)
   \<and> Borrows (exec (env_of NoAction Cascade) (ReturnBook ''1'') returned_db)
        = [\<lparr>BorrowID = 1, Borrows_BookID = 1, BorrowerName = ''Alice'',
            DateBorrowed = ''2026-11-01'', ReturnDate = Some ''2026-11-04''\<rparr>]
   \<and> distinct (map BorrowID
        (Borrows (exec (env_of NoAction Cascade) (ReturnBook ''1'') returned_db)))"
proof -
  let ?r = "\<lparr>BorrowID = 1, Borrows_BookID = 1, BorrowerName = ''Alice'',
             DateBorrowed = ''2026-11-01'', ReturnDate = Some ''2026-11-04''\<rparr>"
  have d: "distinct (map BorrowID (Borrows returned_db))" by (simp add: returned_db_def)
  have m: "?r \<in> set (Borrows returned_db)" by (simp add: returned_db_def)
  have n: "ReturnDate ?r \<noteq> None" by simp
  have x: "Borrows (exec (env_of NoAction Cascade) (ReturnBook ''1'') returned_db) = [?r]"
    by (simp add: return_book_def py_int_1 sqlite_int_1 returned_db_def is_open_def
        join_books_def fetchone_def)
  have c: "distinct (map BorrowID
             (Borrows (exec (env_of NoAction Cascade) (ReturnBook ''1'') returned_db)))"
    using return_date_never_changes [OF d m n, of "env_of NoAction Cascade"
        "ReturnBook ''1''"]
    by blast
  show ?thesis using d m x c by blast
qed

section \<open>Deleting a book\<close>

text \<open>
  Claim C5, as the code has it. \<open>delete_book\<close> issues one statement,
  \<open>DELETE FROM Books WHERE BookID = ?\<close>, and reads back the Books table only. For an
  existing book and the answer yes: when the key from Borrows to Books is declared
  \<open>ON DELETE CASCADE\<close>, the operation succeeds and leaves the store without the book and
  without any Borrow row of it. Whenever the operation reports success, under any
  declared key, the book is gone, the read-back holds, and neither listing of
  \<open>view_borrowed_books\<close> has a row of that book (the listing joins Borrows with Books).
  The read-back does not depend on the Borrows table at all.
\<close>

theorem delete_book_effect:
  assumes "py_int book_id_in = Some b" and "sqlite_int b"
    and "b \<in> set (map BookID (Books db))"
    and "py_strip (py_lower confirm_in) = ''yes''"
  shows "(borrows_book_fk e = Cascade \<longrightarrow>
            delete_book e db book_id_in confirm_in =
              (Inr (), db\<lparr>Books := filter (\<lambda>x. BookID x \<noteq> b) (Books db),
                          Borrows := filter (\<lambda>r. Borrows_BookID r \<noteq> b) (Borrows db)\<rparr>))
       \<and> (\<forall>db'. delete_book e db book_id_in confirm_in = (Inr (), db') \<longrightarrow>
             b \<notin> set (map BookID (Books db')) \<and> delete_book_verify db' b
             \<and> (\<forall>only_outstanding. \<forall>row\<in>set (borrowed_rows only_outstanding db').
                   Borrows_BookID (fst row) \<noteq> b))
       \<and> (\<forall>db' rows. delete_book_verify (db'\<lparr>Borrows := rows\<rparr>) b = delete_book_verify db' b)"
proof -
  have ex: "fetchone (filter (\<lambda>x. BookID x = b) (Books db)) \<noteq> None"
    using assms(3) by (auto simp: fetchone_filter_None)
  have a: "delete_book e db book_id_in confirm_in =
              (Inr (), db\<lparr>Books := filter (\<lambda>x. BookID x \<noteq> b) (Books db),
                          Borrows := filter (\<lambda>r. Borrows_BookID r \<noteq> b) (Borrows db)\<rparr>)"
    if c: "borrows_book_fk e = Cascade"
  proof -
    have "sql_delete_books Cascade (\<lambda>x. BookID x = b) db =
            Some (db\<lparr>Books := filter (\<lambda>x. BookID x \<noteq> b) (Books db),
                     Borrows := filter (\<lambda>r. Borrows_BookID r \<noteq> b) (Borrows db)\<rparr>)"
      using gone_ids [OF assms(3)] by (simp add: sql_delete_books_def Let_def)
    moreover have "delete_book_verify
            (db\<lparr>Books := filter (\<lambda>x. BookID x \<noteq> b) (Books db),
                Borrows := filter (\<lambda>r. Borrows_BookID r \<noteq> b) (Borrows db)\<rparr>) b"
      by (auto simp add: delete_book_verify_iff)
    ultimately show ?thesis
      using assms(1,2,4) ex c by (auto simp add: delete_book_def)
  qed
  have b: "b \<notin> set (map BookID (Books db')) \<and> delete_book_verify db' b
             \<and> (\<forall>only_outstanding. \<forall>row\<in>set (borrowed_rows only_outstanding db').
                   Borrows_BookID (fst row) \<noteq> b)"
    if ok: "delete_book e db book_id_in confirm_in = (Inr (), db')" for db'
  proof -
    have "delete_book_verify db' b"
      using ok assms(1,2,4) ex
      by (auto simp add: delete_book_def split: option.splits if_splits)
    then have nb: "b \<notin> set (map BookID (Books db'))"
      by (simp add: delete_book_verify_iff)
    then have "\<forall>only_outstanding. \<forall>row\<in>set (borrowed_rows only_outstanding db').
                   Borrows_BookID (fst row) \<noteq> b"
      using borrowed_rows_book by metis
    then show ?thesis using nb \<open>delete_book_verify db' b\<close> by blast
  qed
  have c: "\<forall>db' rows. delete_book_verify (db'\<lparr>Borrows := rows\<rparr>) b = delete_book_verify db' b"
    by (simp add: delete_book_verify_def)
  show ?thesis using a b c by blast
qed

theorem delete_book_effect_witness:
  "py_int ''1'' = Some 1 \<and> sqlite_int 1 \<and> 1 \<in> set (map BookID (Books dune_db))
   \<and> py_strip (py_lower ''yes'') = ''yes''
   \<and> delete_book (env_of NoAction Cascade) dune_db ''1'' ''yes'' =
       (Inr (), \<lparr>Authors = [\<lparr>AuthorID = 1, AuthorName = ''Frank Herbert'',
                              BirthYear = Some 1920\<rparr>],
                 Books = [], Borrows = []\<rparr>)"
proof -
  have bk: "1 \<in> set (map BookID (Books dune_db))" by (simp add: dune_db_def)
  show ?thesis
    using py_int_1 sqlite_int_1 bk py_yes
      delete_book_effect [OF py_int_1 sqlite_int_1 bk py_yes, of "env_of NoAction Cascade"]
    by (simp add: dune_db_def env_of_def)
qed

text \<open>
  Claim C5, as stated, fails: the read-back does not look at Borrows. On a database file
  whose Borrows table has no \<open>REFERENCES\<close> clause, deleting the borrowed book reports
  success, the read-back passes, and the Borrow row of the deleted book is still there.
\<close>

theorem delete_book_leaves_borrows_unchecked:
  "fst (delete_book (env_of NoAction Undeclared) dune_db ''1'' ''yes'') = Inr ()
   \<and> delete_book_verify (snd (delete_book (env_of NoAction Undeclared) dune_db ''1'' ''yes'')) 1
   \<and> Borrows (snd (delete_book (env_of NoAction Undeclared) dune_db ''1'' ''yes''))
       = [\<lparr>BorrowID = 1, Borrows_BookID = 1, BorrowerName = ''Alice'',
           DateBorrowed = ''2026-11-01'', ReturnDate = None\<rparr>]"
  by (simp add: delete_book_def py_int_1 sqlite_int_1 py_yes dune_db_def env_of_def
        fetchone_def sql_delete_books_def delete_book_verify_def)

section \<open>Deleting an author\<close>

text \<open>
  Claim C6, as the code has it. \<open>delete_author\<close> counts the books of the author and, when
  there are any, puts the count into its confirmation prompt (\<open>This will affect n
  book(s).\<close>); on the answer yes it issues \<open>DELETE FROM Authors WHERE AuthorID = ?\<close>
  whatever the count. For an existing author: when the store accepts the statement, the
  operation succeeds, the author row is gone and the read-back holds; when the store
  rejects it, the operation reports a database error and the store is unchanged. The
  store accepts the statement whenever no book references the author, and also, whatever
  the count, when the key from Books to Authors is undeclared or \<open>ON DELETE SET NULL\<close>; it
  rejects the statement when the key is declared without an action and a book references
  the author.
\<close>

theorem delete_author_effect:
  assumes "py_int author_id_in = Some a" and "sqlite_int a"
    and "a \<in> set (map AuthorID (Authors db))"
    and "py_strip (py_lower confirm_in) = ''yes''"
  shows "(case sql_delete_author e a db of
            None \<Rightarrow> delete_author e db author_id_in confirm_in = (Inl DatabaseError, db)
          | Some db' \<Rightarrow>
              delete_author e db author_id_in confirm_in = (Inr (), db')
              \<and> a \<notin> set (map AuthorID (Authors db'))
              \<and> delete_author_verify db' a)
       \<and> (books_author_fk e = Undeclared \<or> books_author_fk e = SetNull
            \<or> book_count db a = 0 \<longrightarrow> sql_delete_author e a db \<noteq> None)
       \<and> (books_author_fk e = NoAction \<and> book_count db a \<noteq> 0 \<longrightarrow>
            sql_delete_author e a db = None)
       \<and> (\<exists>au\<in>set (Authors db). AuthorID au = a \<and>
             delete_author_prompt db author_id_in =
               Some (''Are you sure you want to delete '' @ [CHR 0x27] @ AuthorName au
                     @ [CHR 0x27] @ ''?''
                     @ (if book_count db a = 0 then []
                        else '' This will affect '' @ py_str (int (book_count db a))
                               @ '' book(s).'')
                     @ '' (yes/no): ''))"
proof -
  have ex: "fetchone (filter (\<lambda>x. AuthorID x = a) (Authors db)) \<noteq> None"
    using assms(3) by (auto simp: fetchone_filter_None)
  have first: "(case sql_delete_author e a db of
            None \<Rightarrow> delete_author e db author_id_in confirm_in = (Inl DatabaseError, db)
          | Some db' \<Rightarrow>
              delete_author e db author_id_in confirm_in = (Inr (), db')
              \<and> a \<notin> set (map AuthorID (Authors db'))
              \<and> delete_author_verify db' a)"
  proof (cases "sql_delete_author e a db")
    case None
    then show ?thesis using assms(1,2,4) ex by (auto simp add: delete_author_def)
  next
    case (Some db')
    have "Authors db' = filter (\<lambda>x. AuthorID x \<noteq> a) (Authors db)"
      using sql_delete_author_effect [OF Some] by simp
    then have gone: "a \<notin> set (map AuthorID (Authors db'))" by auto
    then have "delete_author_verify db' a" by (simp add: delete_author_verify_iff)
    then show ?thesis using Some gone assms(1,2,4) ex by (auto simp add: delete_author_def)
  qed
  show ?thesis
    using first sql_delete_author_accepts [of e db a] sql_delete_author_rejects [of e db a]
      delete_author_prompt_text [OF assms(1,2,3)] by blast
qed

theorem delete_author_effect_witness:
  "py_int ''1'' = Some 1 \<and> sqlite_int 1 \<and> 1 \<in> set (map AuthorID (Authors dune_db))
   \<and> py_strip (py_lower ''yes'') = ''yes''
   \<and> books_author_fk (env_of SetNull Cascade) = SetNull
   \<and> book_count dune_db 1 = 1
   \<and> delete_author_prompt dune_db ''1'' =
       Some (''Are you sure you want to delete '' @ [CHR 0x27] @ ''Frank Herbert'' @ [CHR 0x27]
             @ ''? This will affect 1 book(s). (yes/no): '')
   \<and> delete_author (env_of SetNull Cascade) dune_db ''1'' ''yes'' =
       (Inr (), \<lparr>Authors = [],
                 Books = [\<lparr>BookID = 1, Title = ''Dune'', PublicationYear = Some 1965,
                           Books_AuthorID = None\<rparr>],
                 Borrows = [\<lparr>BorrowID = 1, Borrows_BookID = 1, BorrowerName = ''Alice'',
                             DateBorrowed = ''2026-11-01'', ReturnDate = None\<rparr>]\<rparr>)"
proof -
  have au: "1 \<in> set (map AuthorID (Authors dune_db))" by (simp add: dune_db_def)
  have cnt: "book_count dune_db 1 = 1" by (simp add: book_count_def dune_db_def)
  have del: "sql_delete_author (env_of SetNull Cascade) 1 dune_db =
       Some \<lparr>Authors = [],
                 Books = [\<lparr>BookID = 1, Title = ''Dune'', PublicationYear = Some 1965,
                           Books_AuthorID = None\<rparr>],
                 Borrows = [\<lparr>BorrowID = 1, Borrows_BookID = 1, BorrowerName = ''Alice'',
                             DateBorrowed = ''2026-11-01'', ReturnDate = None\<rparr>]\<rparr>"
    by (simp add: sql_delete_author_def env_of_def dune_db_def)
  have fk: "books_author_fk (env_of SetNull Cascade) = SetNull" by (simp add: env_of_def)
  have A: "Authors dune_db
             = [\<lparr>AuthorID = 1, AuthorName = ''Frank Herbert'', BirthYear = Some 1920\<rparr>]"
    by (simp add: dune_db_def)
  note T = delete_author_effect [OF py_int_1 sqlite_int_1 au py_yes,
             of "env_of SetNull Cascade"]
  have pr: "delete_author_prompt dune_db ''1'' =
       Some (''Are you sure you want to delete '' @ [CHR 0x27] @ ''Frank Herbert'' @ [CHR 0x27]
             @ ''? This will affect 1 book(s). (yes/no): '')"
    using T by (simp add: A cnt py_str_1)
  have dl: "delete_author (env_of SetNull Cascade) dune_db ''1'' ''yes'' =
       (Inr (), \<lparr>Authors = [],
                 Books = [\<lparr>BookID = 1, Title = ''Dune'', PublicationYear = Some 1965,
                           Books_AuthorID = None\<rparr>],
                 Borrows = [\<lparr>BorrowID = 1, Borrows_BookID = 1, BorrowerName = ''Alice'',
                             DateBorrowed = ''2026-11-01'', ReturnDate = None\<rparr>]\<rparr>)"
    using T by (simp add: del)
  show ?thesis using py_int_1 sqlite_int_1 au py_yes fk cnt pr dl by blast
qed

text \<open>
  Claim C6, as stated, fails: with enforcement on and the key from Books to Authors
  declared without an action (NO ACTION, the default), the store rejects the delete of an
  author who has a book. The operation reports a database error and the author row stays.
\<close>

theorem delete_author_blocked_by_store:
  "book_count dune_db 1 = 1
   \<and> delete_author (env_of NoAction Cascade) dune_db ''1'' ''yes'' = (Inl DatabaseError, dune_db)"
  by (simp add: delete_author_def py_int_1 sqlite_int_1 py_yes dune_db_def env_of_def
        fetchone_def sql_delete_author_def book_count_def)

section \<open>A book for an author that does not exist\<close>

text \<open>
  Claim C7 does not hold of \<open>add_book\<close> on the path of a new author. With choice 1 (an
  existing author) the function looks the id up and refuses an id that no author row has:
  the store is unchanged. With choice 2 (a new author) it adds the author and sends the id
  typed afterwards to the INSERT without looking it up. On a database file whose Books
  table declares no key to Authors the row is stored: in the library, the answers Emma,
  1815, choice 2, Jane Austen, 1775 and the author id 7 add Jane Austen as author 2 and
  the book Emma with the author id 7, which no author row has, and the function reports
  success.
\<close>

theorem add_book_new_author_unchecked:
  "7 \<notin> set (map AuthorID (Authors dune_db))
   \<and> add_book (env_of Undeclared Cascade) dune_db ''Emma'' ''1815'' ''1'' ''7'' [] []
        = (Inl ReferenceError, dune_db)
   \<and> add_book (env_of Undeclared Cascade) dune_db ''Emma'' ''1815'' ''2'' ''7''
        ''Jane Austen'' ''1775''
        = (Inr 2,
           \<lparr>Authors = [\<lparr>AuthorID = 1, AuthorName = ''Frank Herbert'', BirthYear = Some 1920\<rparr>,
                       \<lparr>AuthorID = 2, AuthorName = ''Jane Austen'', BirthYear = Some 1775\<rparr>],
            Books = [\<lparr>BookID = 1, Title = ''Dune'', PublicationYear = Some 1965,
                      Books_AuthorID = Some 1\<rparr>,
                     \<lparr>BookID = 2, Title = ''Emma'', PublicationYear = Some 1815,
                      Books_AuthorID = Some 7\<rparr>],
            Borrows = [\<lparr>BorrowID = 1, Borrows_BookID = 1, BorrowerName = ''Alice'',
                        DateBorrowed = ''2026-11-01'', ReturnDate = None\<rparr>]\<rparr>)"
proof -
  let ?e = "env_of Undeclared Cascade"
  have m: "7 \<notin> set (map AuthorID (Authors dune_db))" by (simp add: dune_db_def)
  have one: "add_book ?e dune_db ''Emma'' ''1815'' ''1'' ''7'' [] [] = (Inl ReferenceError, dune_db)"
    using m
    by (auto simp add: add_book_def add_book_author_def py_strip_Emma py_strip_1815 py_int_1815
          py_strip_1 py_strip_7 py_int_7 sqlite_int_def env_of_def fetchone_filter_None)
  have fk: "books_author_fk ?e = Undeclared" by (simp add: env_of_def)
  have yr: "year (today ?e) = 2026" by (simp add: env_of_def)
  have ins: "insert_book ?e (dune_db\<lparr>Authors := Authors dune_db @
        [\<lparr>AuthorID = 2, AuthorName = ''Jane Austen'', BirthYear = Some 1775\<rparr>]\<rparr>)
        ''Emma'' (Some 1815) (Some 7) =
        (Inr 2,
           \<lparr>Authors = [\<lparr>AuthorID = 1, AuthorName = ''Frank Herbert'', BirthYear = Some 1920\<rparr>,
                       \<lparr>AuthorID = 2, AuthorName = ''Jane Austen'', BirthYear = Some 1775\<rparr>],
            Books = [\<lparr>BookID = 1, Title = ''Dune'', PublicationYear = Some 1965,
                      Books_AuthorID = Some 1\<rparr>,
                     \<lparr>BookID = 2, Title = ''Emma'', PublicationYear = Some 1815,
                      Books_AuthorID = Some 7\<rparr>],
            Borrows = [\<lparr>BorrowID = 1, Borrows_BookID = 1, BorrowerName = ''Alice'',
                        DateBorrowed = ''2026-11-01'', ReturnDate = None\<rparr>]\<rparr>)"
    by (simp add: insert_book_def fk sqlite_int_def new_rowid_def lastrowid_def dune_db_def
          fetchone_def)
  have two: "add_book ?e dune_db ''Emma'' ''1815'' ''2'' ''7'' ''Jane Austen'' ''1775''
        = (Inr 2,
           \<lparr>Authors = [\<lparr>AuthorID = 1, AuthorName = ''Frank Herbert'', BirthYear = Some 1920\<rparr>,
                       \<lparr>AuthorID = 2, AuthorName = ''Jane Austen'', BirthYear = Some 1775\<rparr>],
            Books = [\<lparr>BookID = 1, Title = ''Dune'', PublicationYear = Some 1965,
                      Books_AuthorID = Some 1\<rparr>,
                     \<lparr>BookID = 2, Title = ''Emma'', PublicationYear = Some 1815,
                      Books_AuthorID = Some 7\<rparr>],
            Borrows = [\<lparr>BorrowID = 1, Borrows_BookID = 1, BorrowerName = ''Alice'',
                        DateBorrowed = ''2026-11-01'', ReturnDate = None\<rparr>]\<rparr>)"
    by (simp add: add_book_def add_book_author_def py_strip_Emma py_strip_1815 py_int_1815
          py_strip_2 py_strip_7 py_int_7 add_author_Jane_Austen_undeclared ins yr)
  show ?thesis using m one two by blast
qed

section \<open>The author round trip\<close>

text \<open>
  Claim C8. On a table whose AuthorID is a key: \<open>add_author\<close> with the answers Jane Doe and
  1970 succeeds with the id of the new row, and the rows that \<open>view_authors\<close> selects
  contain exactly one row with that id, with the name Jane Doe and the birth year 1970;
  \<open>update_author\<close> for that id with an empty name and the year 1971 succeeds, after which
  the one row with that id has the birth year 1971 and still the name Jane Doe. In
  general, \<open>update_author\<close> for an existing author, with a year that is blank or in range,
  succeeds and replaces that author's row only: its name is the stripped answer, or the
  prior name when that answer is blank; its birth year is the number typed, or the prior
  birth year when that answer is blank. The clock is at 1971 or later, and the ids typed
  are numbers that fit SQLite's 64-bit INTEGER.
\<close>

theorem author_round_trip:
  assumes ids: "distinct (map AuthorID (Authors db))"
    and clock: "1971 \<le> year (today e)"
    and typed: "py_int id_in = Some (lastrowid (map AuthorID (Authors db)))"
    and fits: "sqlite_int (lastrowid (map AuthorID (Authors db)))"
  shows "(let i = lastrowid (map AuthorID (Authors db));
              created = add_author e db ''Jane Doe'' ''1970'';
              updated = update_author e (snd created) id_in [] ''1971''
          in fst created = Inr i
           \<and> filter (\<lambda>a. AuthorID a = i) (select_authors (snd created))
               = [\<lparr>AuthorID = i, AuthorName = ''Jane Doe'', BirthYear = Some 1970\<rparr>]
           \<and> fst updated = Inr ()
           \<and> filter (\<lambda>a. AuthorID a = i) (select_authors (snd updated))
               = [\<lparr>AuthorID = i, AuthorName = ''Jane Doe'', BirthYear = Some 1971\<rparr>])
       \<and> (\<forall>a\<in>set (Authors db). \<forall>j_in name_in yr_in.
            py_int j_in = Some (AuthorID a) \<and> sqlite_int (AuthorID a)
            \<and> (py_strip yr_in = [] \<or>
                (\<exists>y. py_int (py_strip yr_in) = Some y \<and> 0 \<le> y \<and> y \<le> int (year (today e))))
            \<longrightarrow>
            update_author e db j_in name_in yr_in =
              (Inr (), db\<lparr>Authors :=
                 map (\<lambda>x. if x = a
                           then a\<lparr>AuthorName := (if py_strip name_in = [] then AuthorName a
                                                  else py_strip name_in),
                                  BirthYear := (if py_strip yr_in = [] then BirthYear a
                                                else py_int (py_strip yr_in))\<rparr>
                           else x) (Authors db)\<rparr>))"
proof -
  let ?i = "lastrowid (map AuthorID (Authors db))"
  let ?jane = "\<lparr>AuthorID = ?i, AuthorName = ''Jane Doe'', BirthYear = Some 1970\<rparr>"
  let ?jane' = "\<lparr>AuthorID = ?i, AuthorName = ''Jane Doe'', BirthYear = Some 1971\<rparr>"
  let ?db1 = "db\<lparr>Authors := Authors db @ [?jane]\<rparr>"
  let ?g = "\<lambda>x. if x = ?jane then ?jane' else x"
  let ?db2 = "?db1\<lparr>Authors := map ?g (Authors ?db1)\<rparr>"
  have created: "add_author e db ''Jane Doe'' ''1970'' = (Inr ?i, ?db1)"
    using clock fits add_author_Jane_Doe [of e db] by simp
  have fresh: "?i \<notin> set (map AuthorID (Authors db))"
    using lastrowid_fresh [of "map AuthorID (Authors db)"] .
  have only: "filter (\<lambda>a. AuthorID a = ?i) (Authors ?db1) = [?jane]"
    using filter_fresh_id [of "Authors db"] by simp
  have listed: "filter (\<lambda>a. AuthorID a = ?i) (select_authors ?db1) = [?jane]"
    unfolding select_authors_id only by simp
  have ids1: "distinct (map AuthorID (Authors ?db1))" using ids fresh by simp
  have mem1: "?jane \<in> set (Authors ?db1)" by simp
  have typed1: "py_int id_in = Some (AuthorID ?jane)" using typed by simp
  have fits1: "sqlite_int (AuthorID ?jane)" using fits by simp
  have ok1: "py_strip ''1971'' = [] \<or>
             (\<exists>y. py_int (py_strip ''1971'') = Some y \<and> 0 \<le> y \<and> y \<le> int (year (today e)))"
    using clock by (simp add: py_strip_1971 py_int_1971)
  have updated: "update_author e ?db1 id_in [] ''1971'' = (Inr (), ?db2)"
    using update_author_partial [OF ids1 mem1 typed1 fits1 ok1, of "[]"]
    by (simp add: py_strip_Nil py_strip_1971 py_int_1971)
  have "filter (\<lambda>a. AuthorID a = ?i) (Authors ?db2)
          = map ?g (filter (\<lambda>a. AuthorID a = ?i) (Authors ?db1))"
    using filter_id_map_row [of ?jane' ?jane ?i "Authors ?db1"] by simp
  then have only2: "filter (\<lambda>a. AuthorID a = ?i) (Authors ?db2) = [?jane']"
    unfolding only by simp
  have listed2: "filter (\<lambda>a. AuthorID a = ?i) (select_authors ?db2) = [?jane']"
    unfolding select_authors_id only2 by simp
  have trip: "let i = ?i; created = add_author e db ''Jane Doe'' ''1970'';
                  updated = update_author e (snd created) id_in [] ''1971''
              in fst created = Inr i
               \<and> filter (\<lambda>a. AuthorID a = i) (select_authors (snd created))
                   = [\<lparr>AuthorID = i, AuthorName = ''Jane Doe'', BirthYear = Some 1970\<rparr>]
               \<and> fst updated = Inr ()
               \<and> filter (\<lambda>a. AuthorID a = i) (select_authors (snd updated))
                   = [\<lparr>AuthorID = i, AuthorName = ''Jane Doe'', BirthYear = Some 1971\<rparr>]"
    unfolding Let_def created snd_conv fst_conv updated using listed listed2 by simp
  have partial: "update_author e db j_in name_in yr_in =
              (Inr (), db\<lparr>Authors :=
                 map (\<lambda>x. if x = a
                           then a\<lparr>AuthorName := (if py_strip name_in = [] then AuthorName a
                                                  else py_strip name_in),
                                  BirthYear := (if py_strip yr_in = [] then BirthYear a
                                                else py_int (py_strip yr_in))\<rparr>
                           else x) (Authors db)\<rparr>)"
    if "a \<in> set (Authors db)" "py_int j_in = Some (AuthorID a)" "sqlite_int (AuthorID a)"
      "py_strip yr_in = [] \<or>
         (\<exists>y. py_int (py_strip yr_in) = Some y \<and> 0 \<le> y \<and> y \<le> int (year (today e)))"
    for a j_in name_in yr_in
    using update_author_partial [OF ids that] .
  show ?thesis using trip partial by blast
qed

theorem author_round_trip_witness:
  "distinct (map AuthorID (Authors dune_db))
   \<and> py_int ''2'' = Some (lastrowid (map AuthorID (Authors dune_db)))
   \<and> fst (add_author (env_of NoAction Cascade) dune_db ''Jane Doe'' ''1970'') = Inr 2
   \<and> filter (\<lambda>a. AuthorID a = 2)
        (select_authors (snd (add_author (env_of NoAction Cascade) dune_db ''Jane Doe'' ''1970'')))
        = [\<lparr>AuthorID = 2, AuthorName = ''Jane Doe'', BirthYear = Some 1970\<rparr>]
   \<and> fst (update_author (env_of NoAction Cascade)
            (snd (add_author (env_of NoAction Cascade) dune_db ''Jane Doe'' ''1970''))
            ''2'' [] ''1971'') = Inr ()
   \<and> filter (\<lambda>a. AuthorID a = 2)
        (select_authors (snd (update_author (env_of NoAction Cascade)
            (snd (add_author (env_of NoAction Cascade) dune_db ''Jane Doe'' ''1970''))
            ''2'' [] ''1971'')))
        = [\<lparr>AuthorID = 2, AuthorName = ''Jane Doe'', BirthYear = Some 1971\<rparr>]
   \<and> update_author (env_of NoAction Cascade) dune_db ''1'' [] ''1921''
        = (Inr (), dune_db\<lparr>Authors :=
             [\<lparr>AuthorID = 1, AuthorName = ''Frank Herbert'', BirthYear = Some 1921\<rparr>]\<rparr>)
   \<and> update_author (env_of NoAction Cascade) dune_db ''1'' ''F. Herbert'' []
        = (Inr (), dune_db\<lparr>Authors :=
             [\<lparr>AuthorID = 1, AuthorName = ''F. Herbert'', BirthYear = Some 1920\<rparr>]\<rparr>)"
proof -
  let ?e = "env_of NoAction Cascade"
  let ?frank = "\<lparr>AuthorID = 1, AuthorName = ''Frank Herbert'', BirthYear = Some 1920\<rparr>"
  have L: "lastrowid (map AuthorID (Authors dune_db)) = 2"
    by (simp add: lastrowid_def dune_db_def)
  have A: "Authors dune_db = [?frank]" by (simp add: dune_db_def)
  have d: "distinct (map AuthorID (Authors dune_db))" by (simp add: A)
  have c: "1971 \<le> year (today ?e)" by (simp add: env_of_def)
  have t: "py_int ''2'' = Some (lastrowid (map AuthorID (Authors dune_db)))"
    by (simp add: L py_int_2)
  have f: "sqlite_int (lastrowid (map AuthorID (Authors dune_db)))"
    by (simp add: L sqlite_int_def)
  note T = author_round_trip [OF d c t f, unfolded Let_def L]
  have trip: "fst (add_author ?e dune_db ''Jane Doe'' ''1970'') = Inr 2
     \<and> filter (\<lambda>a. AuthorID a = 2)
        (select_authors (snd (add_author ?e dune_db ''Jane Doe'' ''1970'')))
        = [\<lparr>AuthorID = 2, AuthorName = ''Jane Doe'', BirthYear = Some 1970\<rparr>]
     \<and> fst (update_author ?e (snd (add_author ?e dune_db ''Jane Doe'' ''1970''))
            ''2'' [] ''1971'') = Inr ()
     \<and> filter (\<lambda>a. AuthorID a = 2)
        (select_authors (snd (update_author ?e
            (snd (add_author ?e dune_db ''Jane Doe'' ''1970'')) ''2'' [] ''1971'')))
        = [\<lparr>AuthorID = 2, AuthorName = ''Jane Doe'', BirthYear = Some 1971\<rparr>]"
    using T by blast
  have m: "?frank \<in> set (Authors dune_db)" by (simp add: A)
  have p: "\<forall>j_in name_in yr_in.
            py_int j_in = Some (AuthorID ?frank) \<and> sqlite_int (AuthorID ?frank)
            \<and> (py_strip yr_in = [] \<or>
                (\<exists>y. py_int (py_strip yr_in) = Some y \<and> 0 \<le> y \<and> y \<le> int (year (today ?e))))
            \<longrightarrow>
            update_author ?e dune_db j_in name_in yr_in =
              (Inr (), dune_db\<lparr>Authors :=
                 map (\<lambda>x. if x = ?frank
                           then ?frank\<lparr>AuthorName := (if py_strip name_in = []
                                                        then AuthorName ?frank
                                                        else py_strip name_in),
                                  BirthYear := (if py_strip yr_in = [] then BirthYear ?frank
                                                else py_int (py_strip yr_in))\<rparr>
                           else x) (Authors dune_db)\<rparr>)"
    using T m by blast
  have year: "update_author ?e dune_db ''1'' [] ''1921''
        = (Inr (), dune_db\<lparr>Authors :=
             [\<lparr>AuthorID = 1, AuthorName = ''Frank Herbert'', BirthYear = Some 1921\<rparr>]\<rparr>)"
    using p [rule_format, of "''1''" "''1921''" "[]"]
    by (simp add: py_int_1 sqlite_int_1 py_strip_1921 py_int_1921 py_strip_Nil env_of_def A)
  have name: "update_author ?e dune_db ''1'' ''F. Herbert'' []
        = (Inr (), dune_db\<lparr>Authors :=
             [\<lparr>AuthorID = 1, AuthorName = ''F. Herbert'', BirthYear = Some 1920\<rparr>]\<rparr>)"
    using p [rule_format, of "''1''" "[]" "''F. Herbert''"]
    by (simp add: py_int_1 sqlite_int_1 py_strip_F_Herbert py_strip_Nil A)
  show ?thesis using d t trip year name by blast
qed

end
